theory Spec2Isabelle
  imports Main "HOL-Library.Word" "HOL-Library.Signed_Division"
begin

section \<open>LazzyQuant market watcher: a model of market\_watcher.cpp\<close>

text \<open>
  The development follows \<^verbatim>\<open>src/market_watcher/market_watcher.cpp\<close>. The class
  \<^verbatim>\<open>MarketWatcher\<close> becomes a record of its members, and each member function a
  function from the old record to the new one, or to a failure where the code leaves
  defined behaviour. The signals it emits, the requests it sends to the feed and the
  files it writes are appended to a log inside the record.
\<close>

subsection \<open>Qt value types\<close>

text \<open>
  \<^verbatim>\<open>QTime\<close> holds \<^verbatim>\<open>mds\<close>, the milliseconds since the start of the day, with
  \<^verbatim>\<open>NullTime = -1\<close> for the null time; \<^verbatim>\<open>operator<\<close> compares \<^verbatim>\<open>mds\<close>.
  \<^verbatim>\<open>QDate\<close> holds a Julian day number.
\<close>

type_synonym QTime = int
type_synonym QDate = int

definition MSECS_PER_DAY :: int where
  "MSECS_PER_DAY = 86400000"

definition NullTime :: QTime where
  "NullTime = -1"

definition QTime_isValid :: "QTime \<Rightarrow> bool" where
  "QTime_isValid t = (NullTime < t \<and> t < MSECS_PER_DAY)"

definition QTime_ds :: "QTime \<Rightarrow> int" where
  "QTime_ds t = (if t = NullTime then 0 else t)"

definition msecsSinceStartOfDay :: "QTime \<Rightarrow> int" where
  "msecsSinceStartOfDay t = QTime_ds t"

text \<open>\<^verbatim>\<open>QTime(h, m)\<close> for an hour and a minute in range.\<close>

definition QTime_hm :: "int \<Rightarrow> int \<Rightarrow> QTime" where
  "QTime_hm h m = (h * 3600 + m * 60) * 1000"

text \<open>
  \<^verbatim>\<open>QTime::addMSecs\<close>: the sum is reduced modulo one day, so a time in the last
  minute of the day moved forward by a minute lands just after midnight; a time that
  is not valid gives the null time.
\<close>

definition addMSecs :: "QTime \<Rightarrow> int \<Rightarrow> QTime" where
  "addMSecs t ms =
     (if QTime_isValid t then
        (if ms < 0 then
           (let negdays = (MSECS_PER_DAY - ms) sdiv MSECS_PER_DAY
            in (QTime_ds t + ms + negdays * MSECS_PER_DAY) smod MSECS_PER_DAY)
         else (QTime_ds t + ms) smod MSECS_PER_DAY)
      else NullTime)"

definition addSecs :: "QTime \<Rightarrow> int \<Rightarrow> QTime" where
  "addSecs t s = addMSecs t (s * 1000)"

definition addDays :: "QDate \<Rightarrow> int \<Rightarrow> QDate" where
  "addDays d n = d + n"

subsection \<open>The tick and the validator\<close>

text \<open>
  The fields of \<^verbatim>\<open>CThostFtdcDepthMarketDataField\<close> that this file reads or writes.
  A \<^verbatim>\<open>double\<close> is only copied, so it is kept as its 64-bit pattern.
  \<^verbatim>\<open>ActionDay\<close> is a \<^verbatim>\<open>char[9]\<close>.
\<close>

type_synonym double = "64 word"

record CThostFtdcDepthMarketDataField =
  InstrumentID :: string
  UpdateTime :: string
  UpdateMillisec :: int
  LastPrice :: double
  Volume :: int
  AskPrice1 :: double
  AskVolume1 :: int
  BidPrice1 :: double
  BidVolume1 :: int
  ActionDay :: "8 word list"

text \<open>
  Modelled from the spec: \<^verbatim>\<open>TimeValidator\<close> (\<^verbatim>\<open>time_validator.h\<close> is not among
  the sources). The validator holds the sorted boundary instants it was built from and
  the final timestamp of the last accepted tick; \<^verbatim>\<open>validate\<close> rejects (returns 0)
  when no boundaries are loaded, when the mapped second lies outside every
  \<open>[start, end)\<close> pair, and when \<open>mappedSeconds * 1000 + milliseconds\<close> is not
  strictly greater than the last accepted timestamp; otherwise it records and returns
  that timestamp.
\<close>

record TimeValidator =
  tradingTimePoints :: "int list"
  latestTime :: int

definition newTimeValidator :: "int list \<Rightarrow> TimeValidator" where
  "newTimeValidator timePoints = \<lparr>tradingTimePoints = timePoints, latestTime = 0\<rparr>"

fun insideSession :: "int \<Rightarrow> int list \<Rightarrow> bool" where
  "insideSession t (rangeStart # rangeEnd # rest) = ((rangeStart \<le> t \<and> t < rangeEnd) \<or> insideSession t rest)"
| "insideSession t _ = False"

definition validate :: "TimeValidator \<Rightarrow> int \<Rightarrow> int \<Rightarrow> int \<times> TimeValidator" where
  "validate v mappedSeconds msec =
     (if tradingTimePoints v = [] then (0, v)
      else if \<not> insideSession mappedSeconds (tradingTimePoints v) then (0, v)
      else (let finalTimestamp = mappedSeconds * 1000 + msec
            in if \<not> latestTime v < finalTimestamp then (0, v)
               else (finalTimestamp, v\<lparr>latestTime := finalTimestamp\<rparr>)))"

subsection \<open>Collaborators\<close>

text \<open>
  The functions this file calls and does not define are parameters of the model:
  \<^verbatim>\<open>getEndPoints\<close> and \<^verbatim>\<open>getTradingTimeRanges\<close> (\<^verbatim>\<open>market_info.h\<close>), the time mapper
  \<^verbatim>\<open>mapTime\<close> (given the trading day it was last set to), \<^verbatim>\<open>hhmmssToSec\<close> and
  \<^verbatim>\<open>dateToUtcTimestamp\<close> (\<^verbatim>\<open>datetime_helper.h\<close>), and the two queries of
  \<^verbatim>\<open>TradingCalendar\<close>. So are the sizes in bytes of the fields \<^verbatim>\<open>BrokerID\<close>,
  \<^verbatim>\<open>UserID\<close> and \<^verbatim>\<open>Password\<close> of \<^verbatim>\<open>CThostFtdcReqUserLoginField\<close>, which the header
  of the feed API declares.
\<close>

record collaborators =
  getEndPoints :: "string \<Rightarrow> QTime list"
  getTradingTimeRanges :: "string \<Rightarrow> (QTime \<times> QTime) list"
  mapTime :: "string \<Rightarrow> int \<Rightarrow> int"
  hhmmssToSec :: "string \<Rightarrow> int"
  dateToUtcTimestamp :: "QDate \<Rightarrow> int"
  isTradingDay :: "QDate \<Rightarrow> bool"
  nextTradingDay :: "QDate \<Rightarrow> QDate"
  brokerIDSize :: nat
  userIDSize :: nat
  passwordSize :: nat

subsection \<open>The watcher\<close>

text \<open>What the watcher sends out: signals, requests to the feed, and data files.\<close>

datatype emission =
    NewMarketData string int double int double int double int
  | TradingDayChanged string
  | ReqUserLogin string string string "32 word"
  | SubscribeMarketData "string list"
  | DataFile string "CThostFtdcDepthMarketDataField list"
  | UpdateIni "string list"

text \<open>
  A \<^verbatim>\<open>QString\<close> or \<^verbatim>\<open>QByteArray\<close> is kept as the list of its Latin-1 bytes.
  \<^verbatim>\<open>subscribeSet\<close> is a \<^verbatim>\<open>QSet<QString>\<close>; the list gives its elements in the order
  the set iterates them (an order Qt leaves open; the model appends a new element).
  \<^verbatim>\<open>multiTimer\<close> is \<^verbatim>\<open>None\<close> for \<^verbatim>\<open>nullptr\<close> and otherwise holds the list of
  time points the \<^verbatim>\<open>MultipleTimer\<close> was constructed with. \<^verbatim>\<open>tradingDayOfMapTime\<close>
  is the day last given to \<^verbatim>\<open>mapTime.setTradingDay\<close>.
\<close>

record MarketWatcher =
  brokerID :: string
  userID :: string
  password :: string
  nRequestID :: "32 word"
  saveDepthMarketData :: bool
  subscribeSet :: "string list"
  loggedIn :: bool
  currentTradingDay :: string
  tradingDayOfMapTime :: string
  earliestTime :: int
  timeValidators :: "string \<rightharpoonup> TimeValidator"
  instrumentsToProcess :: "string list list"
  multiTimer :: "QTime list option"
  depthMarketDataListMap :: "string \<rightharpoonup> CThostFtdcDepthMarketDataField list"
  outputs :: "emission list"

definition QSet_insert :: "string \<Rightarrow> string list \<Rightarrow> string list" where
  "QSet_insert x xs = (if x \<in> set xs then xs else xs @ [x])"

subsection \<open>setupTimers\<close>

text \<open>
  \<^verbatim>\<open>QMap<QTime, QStringList>\<close> as the list of its entries in ascending key order.
  \<^verbatim>\<open>endPointsMap[item] << instrumentID\<close> creates the entry when the key is new.
  \<open>addInstrument\<close> is the body of the loop over the subscribed instruments (lines 89
  to 92), \<open>collectEndPoints\<close> the loop (lines 87 to 93), and \<open>setupTimers\<close> goes on
  from the keys (lines 95 to 109).
\<close>

type_synonym endPointsMap = "(QTime \<times> string list) list"

fun QMap_append :: "QTime \<Rightarrow> string \<Rightarrow> endPointsMap \<Rightarrow> endPointsMap" where
  "QMap_append k v [] = [(k, [v])]"
| "QMap_append k v ((k', vs) # rest) =
     (if k = k' then (k', vs @ [v]) # rest
      else if k < k' then (k, [v]) # (k', vs) # rest
      else (k', vs) # QMap_append k v rest)"

definition QMap_keys :: "endPointsMap \<Rightarrow> QTime list" where
  "QMap_keys m = map fst m"

definition QMap_at :: "endPointsMap \<Rightarrow> QTime \<Rightarrow> string list" where
  "QMap_at m k = (case map_of m k of None \<Rightarrow> [] | Some vs \<Rightarrow> vs)"

definition addInstrument :: "collaborators \<Rightarrow> string \<Rightarrow> endPointsMap \<Rightarrow> endPointsMap" where
  "addInstrument env instrumentID m =
     fold (\<lambda>item m'. QMap_append item instrumentID m') (getEndPoints env instrumentID) m"

definition collectEndPoints :: "collaborators \<Rightarrow> string list \<Rightarrow> endPointsMap" where
  "collectEndPoints env instruments = fold (addInstrument env) instruments []"

definition setupTimers :: "collaborators \<Rightarrow> MarketWatcher \<Rightarrow> MarketWatcher" where
  "setupTimers env w =
     (let endPointsMap = collectEndPoints env (subscribeSet w);
          keys = sort (QMap_keys endPointsMap);
          saveBarTimePoints = map (\<lambda>timePoint. addSecs timePoint 60) keys
      in w\<lparr>instrumentsToProcess := map (QMap_at endPointsMap) keys,
           multiTimer := Some saveBarTimePoints\<rparr>)"

subsection \<open>timesUp\<close>

text \<open>
  \<^verbatim>\<open>instrumentsToProcess[index]\<close> outside the list is a failed assertion in Qt; the
  model returns it as an error, as it does a \<^verbatim>\<open>strcpy\<close> that writes past its
  destination and the increment of an \<^verbatim>\<open>int\<close> that holds its largest value.
  \<^verbatim>\<open>depthMarketDataListMap[instrumentID]\<close> creates an
  empty entry when the instrument has none. The file is named after the instrument
  and the current date and time; the model records the instrument and the data written.
  The current date and time of day are arguments. \<open>flushInstrument\<close> is the body of
  the loop (lines 141 to 151) and \<open>saveInstruments\<close> the loop (lines 140 to 152).
\<close>

datatype failure = IndexOutOfRange | BufferOverrun | IntegerOverflow

definition flushInstrument :: "string \<Rightarrow> MarketWatcher \<Rightarrow> MarketWatcher" where
  "flushInstrument instrumentID w =
     (let depthMarketDataList =
            (case depthMarketDataListMap w instrumentID of None \<Rightarrow> [] | Some l \<Rightarrow> l)
      in if depthMarketDataList \<noteq> [] then
           w\<lparr>depthMarketDataListMap := (depthMarketDataListMap w)(instrumentID \<mapsto> []),
             outputs := outputs w @ [DataFile instrumentID depthMarketDataList]\<rparr>
         else w\<lparr>depthMarketDataListMap := (depthMarketDataListMap w)(instrumentID \<mapsto> [])\<rparr>)"

definition saveInstruments :: "int \<Rightarrow> MarketWatcher \<Rightarrow> failure + MarketWatcher" where
  "saveInstruments index w =
     (if 0 \<le> index \<and> index < int (length (instrumentsToProcess w))
      then Inr (fold flushInstrument (instrumentsToProcess w ! nat index) w)
      else Inl IndexOutOfRange)"

definition timesUp ::
  "collaborators \<Rightarrow> QDate \<Rightarrow> QTime \<Rightarrow> int \<Rightarrow> MarketWatcher \<Rightarrow> failure + MarketWatcher" where
  "timesUp env today currentTime index w =
     (if \<not> isTradingDay env today then
        (let isNormalSaturday =
               (isTradingDay env (addDays today (- 1)) \<and>
                nextTradingDay env today = addDays today 2)
         in if \<not> isNormalSaturday \<or> currentTime > QTime_hm 5 0
            then Inr (w\<lparr>depthMarketDataListMap := Map.empty\<rparr>)
            else saveInstruments index w)
      else saveInstruments index w)"

subsection \<open>setupTimeValidators and setWeekend\<close>

text \<open>
  \<open>rangeTimes\<close> is the body of the loop over the ranges of one instrument (lines 246
  to 250), \<open>instrumentTimes\<close> that loop, which fills \<^verbatim>\<open>times\<close>, and
  \<open>addValidator\<close> the body of the loop over the subscribed instruments (lines 243 to
  257), which leaves out an instrument whose \<^verbatim>\<open>times\<close> is empty.
\<close>

definition rangeTimes :: "collaborators \<Rightarrow> MarketWatcher \<Rightarrow> QTime \<times> QTime \<Rightarrow> int list" where
  "rangeTimes env w tradingTimeRange =
     (let rangeStart =
            mapTime env (tradingDayOfMapTime w)
              (msecsSinceStartOfDay (fst tradingTimeRange) sdiv 1000)
      in if rangeStart \<ge> earliestTime w
         then [rangeStart,
               mapTime env (tradingDayOfMapTime w)
                 (msecsSinceStartOfDay (snd tradingTimeRange) sdiv 1000)]
         else [])"

definition instrumentTimes :: "collaborators \<Rightarrow> MarketWatcher \<Rightarrow> string \<Rightarrow> int list" where
  "instrumentTimes env w instrumentID =
     concat (map (rangeTimes env w) (getTradingTimeRanges env instrumentID))"

definition addValidator ::
  "collaborators \<Rightarrow> MarketWatcher \<Rightarrow> string \<Rightarrow> (string \<rightharpoonup> TimeValidator)
     \<Rightarrow> (string \<rightharpoonup> TimeValidator)" where
  "addValidator env w instrumentID validators =
     (let timePoints = instrumentTimes env w instrumentID
      in if timePoints = [] then validators
         else validators(instrumentID \<mapsto> newTimeValidator (sort timePoints)))"

definition setupTimeValidators :: "collaborators \<Rightarrow> MarketWatcher \<Rightarrow> MarketWatcher" where
  "setupTimeValidators env w =
     w\<lparr>timeValidators := fold (addValidator env w) (subscribeSet w) Map.empty\<rparr>"

definition setWeekend :: "collaborators \<Rightarrow> QDate \<Rightarrow> MarketWatcher \<Rightarrow> MarketWatcher" where
  "setWeekend env today w =
     w\<lparr>earliestTime := dateToUtcTimestamp env (nextTradingDay env today) + 8 * 3600\<rparr>"

subsection \<open>processDepthMarketData\<close>

text \<open>
  \<^verbatim>\<open>*((int*)mdToSave.ActionDay) = localTime.elapsed()\<close> overwrites the first four
  bytes of \<^verbatim>\<open>ActionDay\<close> with the elapsed milliseconds, low byte first on the
  platforms the watcher is built for. The elapsed time is an argument. \<open>publish\<close>
  is the part of the function from the test \<^verbatim>\<open>mappedTime > 0\<close> on (lines 280 to 295).
\<close>

definition stampActionDay :: "32 word \<Rightarrow> 8 word list \<Rightarrow> 8 word list" where
  "stampActionDay elapsed actionDay =
     [ucast elapsed, ucast (drop_bit 8 elapsed), ucast (drop_bit 16 elapsed),
      ucast (drop_bit 24 elapsed)] @ drop 4 actionDay"

definition bufferOf ::
  "MarketWatcher \<Rightarrow> string \<Rightarrow> CThostFtdcDepthMarketDataField list" where
  "bufferOf w instrumentID =
     (case depthMarketDataListMap w instrumentID of None \<Rightarrow> [] | Some l \<Rightarrow> l)"

definition publish ::
  "32 word \<Rightarrow> CThostFtdcDepthMarketDataField \<Rightarrow> int \<Rightarrow> MarketWatcher \<Rightarrow> MarketWatcher" where
  "publish elapsed d mappedTime w =
     (if mappedTime > 0 then
        (let w' = w\<lparr>outputs := outputs w @
                      [NewMarketData (InstrumentID d) mappedTime (LastPrice d) (Volume d)
                         (AskPrice1 d) (AskVolume1 d) (BidPrice1 d) (BidVolume1 d)]\<rparr>
         in if saveDepthMarketData w' then
              (let mdToSave = d\<lparr>ActionDay := stampActionDay elapsed (ActionDay d)\<rparr>
               in w'\<lparr>depthMarketDataListMap :=
                       (depthMarketDataListMap w')
                         (InstrumentID d \<mapsto> bufferOf w' (InstrumentID d) @ [mdToSave])\<rparr>)
            else w')
      else w)"

definition processDepthMarketData ::
  "collaborators \<Rightarrow> 32 word \<Rightarrow> CThostFtdcDepthMarketDataField \<Rightarrow> MarketWatcher
     \<Rightarrow> MarketWatcher" where
  "processDepthMarketData env elapsed d w =
     (let instrumentID = InstrumentID d;
          time = hhmmssToSec env (UpdateTime d)
      in case timeValidators w instrumentID of
           None \<Rightarrow> publish elapsed d 0 w
         | Some pValidator \<Rightarrow>
             (let r = validate pValidator (mapTime env (tradingDayOfMapTime w) time)
                        (UpdateMillisec d)
              in publish elapsed d (fst r)
                   (w\<lparr>timeValidators := (timeValidators w)(instrumentID \<mapsto> snd r)\<rparr>)))"

subsection \<open>Login, subscription and events\<close>

text \<open>
  \<^verbatim>\<open>strcpy\<close> copies the bytes before the first zero byte and a zero byte after them.
  \<open>cString\<close> is what it copies of a string, and a string fits a destination of
  \<open>n\<close> bytes when these bytes and the terminator do.
\<close>

definition cString :: "string \<Rightarrow> string" where
  "cString s = takeWhile (\<lambda>c. c \<noteq> CHR 0x00) s"

definition fits :: "string \<Rightarrow> nat \<Rightarrow> bool" where
  "fits s n = (length (cString s) < n)"

text \<open>
  \<^verbatim>\<open>login\<close> copies the account into the fields of the request (lines 210 to 214)
  and sends it with the request number, which it then increments (line 216);
  \<^verbatim>\<open>nRequestID\<close> is an \<^verbatim>\<open>int\<close>.
\<close>

definition login :: "collaborators \<Rightarrow> MarketWatcher \<Rightarrow> failure + MarketWatcher" where
  "login env w =
     (if \<not> (fits (brokerID w) (brokerIDSize env) \<and> fits (userID w) (userIDSize env) \<and>
             fits (password w) (passwordSize env))
      then Inl BufferOverrun
      else if nRequestID w = 0x7FFFFFFF then Inl IntegerOverflow
      else Inr (w\<lparr>nRequestID := nRequestID w + 1,
                  outputs := outputs w @
                    [ReqUserLogin (cString (brokerID w)) (cString (userID w))
                       (cString (password w)) (nRequestID w)]\<rparr>))"

text \<open>
  \<^verbatim>\<open>subscribe\<close> and \<^verbatim>\<open>subscribeInstruments\<close> copy the \<open>i\<close>-th name to offset
  \<open>32 * i\<close> of an array of \<open>32 * num\<close> bytes and pass the addresses of these slots
  to the feed (lines 225 to 233 and 333 to 344). The slots are filled in order. A name
  of 32 bytes or more runs into the slots after its own, where the later copies
  overwrite it; so the string the feed reads at a slot is the name itself when it is
  shorter than 32 bytes, and otherwise its first 32 bytes followed by the string at the
  next slot (\<open>slotStrings\<close>). A copy that would end after the array is a failure
  (\<open>copySlots\<close>).
\<close>

fun slotStrings :: "string list \<Rightarrow> string list" where
  "slotStrings [] = []"
| "slotStrings (name # rest) =
     (if length name < 32 then name
      else take 32 name @ (case slotStrings rest of [] \<Rightarrow> [] | next # _ \<Rightarrow> next))
     # slotStrings rest"

definition copySlots :: "string list \<Rightarrow> failure + string list" where
  "copySlots names =
     (let copied = map cString names;
          num = length names
      in if list_ex (\<lambda>p. 32 * num < 32 * fst p + length (snd p) + 1) (enumerate 0 copied)
         then Inl BufferOverrun
         else Inr (slotStrings copied))"

definition subscribe :: "MarketWatcher \<Rightarrow> failure + MarketWatcher" where
  "subscribe w =
     (case copySlots (subscribeSet w) of
        Inl e \<Rightarrow> Inl e
      | Inr ppInstrumentID \<Rightarrow>
          Inr (w\<lparr>outputs := outputs w @ [SubscribeMarketData ppInstrumentID]\<rparr>))"

text \<open>
  \<open>instrumentsSubscribed\<close> is \<^verbatim>\<open>subscribeInstruments\<close> given the slots its first
  loop has filled: the insertions of that loop and lines 342 to 364.
  \<^verbatim>\<open>checkDirectory\<close> only touches the file system and is left out.
\<close>

definition instrumentsSubscribed ::
  "collaborators \<Rightarrow> string list \<Rightarrow> string list \<Rightarrow> bool \<Rightarrow> MarketWatcher \<Rightarrow> MarketWatcher" where
  "instrumentsSubscribed env ppInstrumentID instruments updateIni w =
     (let w1 = w\<lparr>subscribeSet := fold QSet_insert instruments (subscribeSet w)\<rparr>;
          w2 = (if loggedIn w1
                then w1\<lparr>outputs := outputs w1 @ [SubscribeMarketData ppInstrumentID]\<rparr> else w1);
          w3 = (if saveDepthMarketData w2 then setupTimers env w2 else w2);
          w4 = (if loggedIn w3 then setupTimeValidators env w3 else w3)
      in if updateIni then w4\<lparr>outputs := outputs w4 @ [UpdateIni instruments]\<rparr> else w4)"

definition subscribeInstruments ::
  "collaborators \<Rightarrow> string list \<Rightarrow> bool \<Rightarrow> MarketWatcher \<Rightarrow> failure + MarketWatcher" where
  "subscribeInstruments env instruments updateIni w =
     (case copySlots instruments of
        Inl e \<Rightarrow> Inl e
      | Inr ppInstrumentID \<Rightarrow>
          Inr (instrumentsSubscribed env ppInstrumentID instruments updateIni w))"

text \<open>
  The events of \<^verbatim>\<open>customEvent\<close>. The trading day that \<^verbatim>\<open>getTradingDay\<close> reads from
  the feed and the elapsed time are arguments. \<open>userLoggedIn\<close> is the case
  \<^verbatim>\<open>RSP_USER_LOGIN\<close> up to the call of \<^verbatim>\<open>subscribe\<close> (lines 171 to 181) and
  \<open>rspUserLogin\<close> the whole case (lines 170 to 183). The constructor, which calls
  \<^verbatim>\<open>setupTimers\<close> when the watcher saves data, the destructor and the getters are not
  modelled.
\<close>

datatype event =
    FRONT_CONNECTED
  | FRONT_DISCONNECTED int
  | HEARTBEAT_WARNING
  | RSP_USER_LOGIN
  | RSP_USER_LOGOUT
  | RSP_ERROR
  | RSP_SUB_MARKETDATA
  | RSP_UNSUB_MARKETDATA
  | DEPTH_MARKET_DATA CThostFtdcDepthMarketDataField
  | OtherEvent

definition userLoggedIn :: "collaborators \<Rightarrow> string \<Rightarrow> MarketWatcher \<Rightarrow> MarketWatcher" where
  "userLoggedIn env tradingDay w =
     (let w1 = w\<lparr>loggedIn := True\<rparr>
      in if currentTradingDay w1 \<noteq> tradingDay then
           (let wa = w1\<lparr>outputs := outputs w1 @ [TradingDayChanged tradingDay]\<rparr>;
                wb = wa\<lparr>tradingDayOfMapTime := tradingDay\<rparr>;
                wc = setupTimeValidators env wb
            in wc\<lparr>currentTradingDay := tradingDay\<rparr>)
         else w1)"

definition rspUserLogin ::
  "collaborators \<Rightarrow> string \<Rightarrow> MarketWatcher \<Rightarrow> failure + MarketWatcher" where
  "rspUserLogin env tradingDay w = subscribe (userLoggedIn env tradingDay w)"

fun customEvent ::
  "collaborators \<Rightarrow> string \<Rightarrow> 32 word \<Rightarrow> event \<Rightarrow> MarketWatcher
     \<Rightarrow> failure + MarketWatcher" where
  "customEvent env tradingDay elapsed FRONT_CONNECTED w = login env w"
| "customEvent env tradingDay elapsed (FRONT_DISCONNECTED reason) w =
     Inr (w\<lparr>loggedIn := False\<rparr>)"
| "customEvent env tradingDay elapsed RSP_USER_LOGIN w = rspUserLogin env tradingDay w"
| "customEvent env tradingDay elapsed (DEPTH_MARKET_DATA d) w =
     Inr (processDepthMarketData env elapsed d w)"
| "customEvent env tradingDay elapsed _ w = Inr w"

subsection \<open>Notions used in the statements\<close>

text \<open>
  The distinct session-close times of a list of instruments in ascending order, and the
  instruments of the list that close at a given time.
\<close>

definition closeTimes :: "collaborators \<Rightarrow> string list \<Rightarrow> QTime list" where
  "closeTimes env instruments = sort (remdups (concat (map (getEndPoints env) instruments)))"

definition closingAt :: "collaborators \<Rightarrow> string list \<Rightarrow> QTime \<Rightarrow> string list" where
  "closingAt env instruments t = filter (\<lambda>i. t \<in> set (getEndPoints env i)) instruments"

text \<open>The second of the day of a \<^verbatim>\<open>QTime\<close> mapped by the time mapper as it is set.\<close>

definition mapped :: "collaborators \<Rightarrow> MarketWatcher \<Rightarrow> QTime \<Rightarrow> int" where
  "mapped env w t = mapTime env (tradingDayOfMapTime w) (msecsSinceStartOfDay t sdiv 1000)"

text \<open>
  The boundary instants of the ranges of an instrument whose mapped start is not
  earlier than \<^verbatim>\<open>earliestTime\<close>.
\<close>

definition survivingRanges ::
  "collaborators \<Rightarrow> MarketWatcher \<Rightarrow> string \<Rightarrow> (QTime \<times> QTime) list" where
  "survivingRanges env w instrumentID =
     filter (\<lambda>r. earliestTime w \<le> mapped env w (fst r)) (getTradingTimeRanges env instrumentID)"

definition survivingBoundaries :: "collaborators \<Rightarrow> MarketWatcher \<Rightarrow> string \<Rightarrow> int list" where
  "survivingBoundaries env w instrumentID =
     sort (concat (map (\<lambda>r. [mapped env w (fst r), mapped env w (snd r)])
                       (survivingRanges env w instrumentID)))"

text \<open>A run of ticks, each with the elapsed time read when it is handled.\<close>

definition processTicks ::
  "collaborators \<Rightarrow> (32 word \<times> CThostFtdcDepthMarketDataField) list \<Rightarrow> MarketWatcher
     \<Rightarrow> MarketWatcher" where
  "processTicks env ticks w = fold (\<lambda>t. processDepthMarketData env (fst t) (snd t)) ticks w"

text \<open>What was sent out between an earlier and a later state.\<close>

definition emittedBy :: "MarketWatcher \<Rightarrow> MarketWatcher \<Rightarrow> emission list" where
  "emittedBy w w' = drop (length (outputs w)) (outputs w')"

text \<open>The final timestamps published for an instrument, in the order of publication.\<close>

fun publishedTo :: "string \<Rightarrow> emission list \<Rightarrow> int list" where
  "publishedTo i [] = []"
| "publishedTo i (NewMarketData j ts lp v ap av bp bv # rest) =
     (if j = i then ts # publishedTo i rest else publishedTo i rest)"
| "publishedTo i (_ # rest) = publishedTo i rest"

text \<open>The data files written, as pairs of instrument and content.\<close>

fun filesIn :: "emission list \<Rightarrow> (string \<times> CThostFtdcDepthMarketDataField list) list" where
  "filesIn [] = []"
| "filesIn (DataFile i l # rest) = (i, l) # filesIn rest"
| "filesIn (_ # rest) = filesIn rest"

text \<open>
  The value \<^verbatim>\<open>mappedTime\<close> has in \<^verbatim>\<open>processDepthMarketData\<close> when the signal is
  decided: 0 without a validator, else the result of \<^verbatim>\<open>validate\<close>.
\<close>

definition mappedTimeOf ::
  "collaborators \<Rightarrow> CThostFtdcDepthMarketDataField \<Rightarrow> MarketWatcher \<Rightarrow> int" where
  "mappedTimeOf env d w =
     (case timeValidators w (InstrumentID d) of
        None \<Rightarrow> 0
      | Some pValidator \<Rightarrow>
          fst (validate pValidator
                 (mapTime env (tradingDayOfMapTime w) (hhmmssToSec env (UpdateTime d)))
                 (UpdateMillisec d)))"

text \<open>\<^verbatim>\<open>QDate::dayOfWeek\<close>: 1 is Monday, 6 is Saturday.\<close>

definition dayOfWeek :: "QDate \<Rightarrow> int" where
  "dayOfWeek jd = (if jd \<ge> 0 then (jd smod 7) + 1 else ((jd + 1) smod 7) + 7)"

subsection \<open>A concrete setting\<close>

text \<open>
  Three instruments: A and B trade 09:00 to 15:00, C trades 09:00 to 15:00 and 21:00
  to 23:00. The time mapper adds the second of the day to the midnight of the trading
  day it was set to. The calendar trades Monday to Friday except the two days
  2023-02-22 and 2023-02-23 (Julian days 2459998 and 2459999).
\<close>

definition digitValue :: "char \<Rightarrow> int" where
  "digitValue c = int (of_char c) - 48"

definition demoHhmmssToSec :: "string \<Rightarrow> int" where
  "demoHhmmssToSec s =
     (case s of
        [h1, h2, c1, m1, m2, c2, s1, s2] \<Rightarrow>
          (digitValue h1 * 10 + digitValue h2) * 3600 +
          (digitValue m1 * 10 + digitValue m2) * 60 +
          (digitValue s1 * 10 + digitValue s2)
      | _ \<Rightarrow> 0)"

definition demoEndPoints :: "string \<Rightarrow> QTime list" where
  "demoEndPoints i =
     (if i = ''A'' then [54000000]
      else if i = ''B'' then [54000000]
      else if i = ''C'' then [54000000, 82800000]
      else [])"

definition demoRanges :: "string \<Rightarrow> (QTime \<times> QTime) list" where
  "demoRanges i =
     (if i = ''A'' then [(32400000, 54000000)]
      else if i = ''B'' then [(32400000, 54000000)]
      else if i = ''C'' then [(32400000, 54000000), (75600000, 82800000)]
      else [])"

definition demoMapTime :: "string \<Rightarrow> int \<Rightarrow> int" where
  "demoMapTime day t = (if day = ''20230224'' then 1677196800 else 0) + t"

definition demoIsTradingDay :: "QDate \<Rightarrow> bool" where
  "demoIsTradingDay d = (d mod 7 < 5 \<and> d \<noteq> 2459998 \<and> d \<noteq> 2459999)"

definition demoNextTradingDay :: "QDate \<Rightarrow> QDate" where
  "demoNextTradingDay d =
     (case List.find demoIsTradingDay (map (\<lambda>k. d + k) [1, 2, 3, 4, 5, 6, 7]) of
        None \<Rightarrow> d + 8
      | Some n \<Rightarrow> n)"

definition demo :: collaborators where
  "demo = \<lparr>getEndPoints = demoEndPoints,
           getTradingTimeRanges = demoRanges,
           mapTime = demoMapTime,
           hhmmssToSec = demoHhmmssToSec,
           dateToUtcTimestamp = (\<lambda>d. (d - 2440588) * 86400),
           isTradingDay = demoIsTradingDay,
           nextTradingDay = demoNextTradingDay,
           brokerIDSize = 11, userIDSize = 16, passwordSize = 41\<rparr>"

text \<open>
  A watcher that saves data, subscribed to A, B and C, as the constructor has it before
  it calls \<^verbatim>\<open>setupTimers\<close>: not logged in, no trading day, no table built.
\<close>

definition fresh :: MarketWatcher where
  "fresh = \<lparr>brokerID = ''9999'', userID = ''watcher'', password = ''secret'', nRequestID = 0,
            saveDepthMarketData = True, subscribeSet = [''A'', ''B'', ''C''],
            loggedIn = False, currentTradingDay = [], tradingDayOfMapTime = [],
            earliestTime = 0, timeValidators = Map.empty, instrumentsToProcess = [],
            multiTimer = None, depthMarketDataListMap = Map.empty, outputs = []\<rparr>"

definition tickA :: CThostFtdcDepthMarketDataField where
  "tickA = \<lparr>InstrumentID = ''A'', UpdateTime = ''10:00:00'', UpdateMillisec = 500,
            LastPrice = 0x40A7700000000000, Volume = 10,
            AskPrice1 = 0x40A7720000000000, AskVolume1 = 3,
            BidPrice1 = 0x40A76E0000000000, BidVolume1 = 4,
            ActionDay = [50, 48, 50, 51, 48, 50, 50, 52, 0]\<rparr>"

subsection \<open>Notions for the flush\<close>

text \<open>
  The instruments of a group in the order of their first occurrence, the data files a
  flush of the group writes, and the watcher after the flush.
\<close>

definition firstOccurrences :: "string list \<Rightarrow> string list" where
  "firstOccurrences g = rev (remdups (rev g))"

definition filesFor :: "string list \<Rightarrow> MarketWatcher \<Rightarrow> emission list" where
  "filesFor g w =
     map (\<lambda>i. DataFile i (bufferOf w i)) (filter (\<lambda>i. bufferOf w i \<noteq> []) (firstOccurrences g))"

definition flushed :: "string list \<Rightarrow> MarketWatcher \<Rightarrow> MarketWatcher" where
  "flushed g w =
     w\<lparr>depthMarketDataListMap :=
         (\<lambda>i. if i \<in> set g then Some [] else depthMarketDataListMap w i),
       outputs := outputs w @ filesFor g w\<rparr>"

subsection \<open>States of the concrete setting\<close>

text \<open>
  Each of the states below that is the result of an operation is that result; the
  operation is shown further down to return it without failure.
  The watcher after construction and a login on trading day 2023-02-24, then after one
  tick of A at 10:00:00.500, then after a like tick of C. \<open>lateClose\<close> is the setting
  with a session of B that closes at 23:59:30, \<open>apart\<close> the setting in which C closes
  at 23:00 only.
\<close>

definition loggedDemo :: MarketWatcher where
  "loggedDemo =
     (case customEvent demo ''20230224'' 0 RSP_USER_LOGIN (setupTimers demo fresh) of
        Inl e \<Rightarrow> setupTimers demo fresh | Inr w \<Rightarrow> w)"

definition buffered :: MarketWatcher where
  "buffered = processDepthMarketData demo 77 tickA loggedDemo"

definition stampedA :: CThostFtdcDepthMarketDataField where
  "stampedA = tickA\<lparr>ActionDay := [77, 0, 0, 0, 48, 50, 50, 52, 0]\<rparr>"

definition publishedA :: emission where
  "publishedA = NewMarketData ''A'' 1677232800500 0x40A7700000000000 10
                  0x40A7720000000000 3 0x40A76E0000000000 4"

definition tickC :: CThostFtdcDepthMarketDataField where
  "tickC = tickA\<lparr>InstrumentID := ''C''\<rparr>"

definition stampedC :: CThostFtdcDepthMarketDataField where
  "stampedC = tickC\<lparr>ActionDay := [78, 0, 0, 0, 48, 50, 50, 52, 0]\<rparr>"

definition bufferedAC :: MarketWatcher where
  "bufferedAC = processDepthMarketData demo 78 tickC buffered"

definition apart :: collaborators where
  "apart = demo\<lparr>getEndPoints :=
      (\<lambda>i. if i = ''C'' then [82800000] else demoEndPoints i)\<rparr>"

definition lateClose :: collaborators where
  "lateClose = demo\<lparr>getEndPoints :=
      (\<lambda>i. if i = ''A'' then [54000000] else if i = ''B'' then [86370000] else [])\<rparr>"

text \<open>The logged-in watcher with the floor moved to 10:00:00 of the trading day.\<close>

definition midday :: MarketWatcher where
  "midday = loggedDemo\<lparr>earliestTime := 1677232800\<rparr>"

text \<open>The signal \<^verbatim>\<open>newMarketData\<close> for a tick and a final timestamp.\<close>

definition signalOf :: "CThostFtdcDepthMarketDataField \<Rightarrow> int \<Rightarrow> emission" where
  "signalOf d mappedTime =
     NewMarketData (InstrumentID d) mappedTime (LastPrice d) (Volume d)
       (AskPrice1 d) (AskVolume1 d) (BidPrice1 d) (BidVolume1 d)"

text \<open>
  The watcher that does not save data after its first login; a later tick of A, a tick
  of the unknown instrument D, and the logged-in watcher after subscribing to D.
\<close>

definition quiet :: MarketWatcher where
  "quiet =
     (case customEvent demo ''20230224'' 0 RSP_USER_LOGIN (fresh\<lparr>saveDepthMarketData := False\<rparr>) of
        Inl e \<Rightarrow> fresh\<lparr>saveDepthMarketData := False\<rparr> | Inr w \<Rightarrow> w)"

definition tickA600 :: CThostFtdcDepthMarketDataField where
  "tickA600 = tickA\<lparr>UpdateMillisec := 600\<rparr>"

definition tickD :: CThostFtdcDepthMarketDataField where
  "tickD = tickA\<lparr>InstrumentID := ''D''\<rparr>"

definition subscribedD :: MarketWatcher where
  "subscribedD =
     (case subscribeInstruments demo [''D''] False loggedDemo of
        Inl e \<Rightarrow> loggedDemo | Inr w \<Rightarrow> w)"

text \<open>
  A watcher subscribed to A alone after its first login, the same after the front
  disconnected, then after subscribing to C while disconnected, then after the next
  login on the same trading day, and a tick of C at 10:00:00.600.
\<close>

definition loggedA :: MarketWatcher where
  "loggedA =
     (case customEvent demo ''20230224'' 0 RSP_USER_LOGIN
             (setupTimers demo (fresh\<lparr>subscribeSet := [''A'']\<rparr>)) of
        Inl e \<Rightarrow> setupTimers demo (fresh\<lparr>subscribeSet := [''A'']\<rparr>) | Inr w \<Rightarrow> w)"

definition offline :: MarketWatcher where
  "offline =
     (case customEvent demo ''20230224'' 0 (FRONT_DISCONNECTED 4097) loggedA of
        Inl e \<Rightarrow> loggedA | Inr w \<Rightarrow> w)"

definition lateC :: MarketWatcher where
  "lateC =
     (case subscribeInstruments demo [''C''] False offline of
        Inl e \<Rightarrow> offline | Inr w \<Rightarrow> w)"

definition relogged :: MarketWatcher where
  "relogged =
     (case customEvent demo ''20230224'' 0 RSP_USER_LOGIN lateC of
        Inl e \<Rightarrow> lateC | Inr w \<Rightarrow> w)"

definition tickC600 :: CThostFtdcDepthMarketDataField where
  "tickC600 = tickC\<lparr>UpdateMillisec := 600\<rparr>"

subsection \<open>Sequences of operations\<close>

text \<open>
  The operations the watcher offers from outside: an event, a firing of the timer, a
  subscription and \<^verbatim>\<open>setWeekend\<close>, each with what it reads from its surroundings.
  A sequence stops at the first failure. An operation rebuilds the validator table
  when it calls \<^verbatim>\<open>setupTimeValidators\<close>: a login that reports another trading day
  than the recorded one, and a subscription while logged in. A sequence is steady from
  a state when none of its operations rebuilds the table in the state it meets.
\<close>

datatype operation =
    Event string "32 word" event
  | Firing QDate QTime int
  | Subscription "string list" bool
  | Weekend QDate

fun perform :: "collaborators \<Rightarrow> operation \<Rightarrow> MarketWatcher \<Rightarrow> failure + MarketWatcher" where
  "perform env (Event tradingDay elapsed e) w = customEvent env tradingDay elapsed e w"
| "perform env (Firing today currentTime index) w = timesUp env today currentTime index w"
| "perform env (Subscription instruments updateIni) w =
     subscribeInstruments env instruments updateIni w"
| "perform env (Weekend today) w = Inr (setWeekend env today w)"

fun performAll ::
  "collaborators \<Rightarrow> operation list \<Rightarrow> MarketWatcher \<Rightarrow> failure + MarketWatcher" where
  "performAll env [] w = Inr w"
| "performAll env (x # xs) w =
     (case perform env x w of Inl e \<Rightarrow> Inl e | Inr w' \<Rightarrow> performAll env xs w')"

fun rebuilds :: "operation \<Rightarrow> MarketWatcher \<Rightarrow> bool" where
  "rebuilds (Event tradingDay elapsed RSP_USER_LOGIN) w = (currentTradingDay w \<noteq> tradingDay)"
| "rebuilds (Subscription instruments updateIni) w = loggedIn w"
| "rebuilds _ w = False"

fun steady :: "collaborators \<Rightarrow> operation list \<Rightarrow> MarketWatcher \<Rightarrow> bool" where
  "steady env [] w = True"
| "steady env (x # xs) w =
     (if rebuilds x w then False
      else (case perform env x w of Inl e \<Rightarrow> True | Inr w' \<Rightarrow> steady env xs w'))"

text \<open>
  Two sequences of operations from the logged-in watcher. In \<open>steadyRun\<close> the front
  disconnects before D is subscribed and the login that follows reports the recorded
  trading day; in \<open>rebuiltRun\<close> D is subscribed while the watcher is logged in,
  between two deliveries of the same tick of A.
\<close>

definition steadyRun :: "operation list" where
  "steadyRun =
     [Event ''20230224'' 77 (DEPTH_MARKET_DATA tickA),
      Event ''20230224'' 0 (FRONT_DISCONNECTED 4097),
      Subscription [''D''] False,
      Event ''20230224'' 0 RSP_USER_LOGIN,
      Firing 2460000 (QTime_hm 15 1) 0,
      Event ''20230224'' 78 (DEPTH_MARKET_DATA tickA),
      Event ''20230224'' 79 (DEPTH_MARKET_DATA tickA600)]"

definition rebuiltRun :: "operation list" where
  "rebuiltRun =
     [Event ''20230224'' 77 (DEPTH_MARKET_DATA tickA),
      Subscription [''D''] False,
      Event ''20230224'' 78 (DEPTH_MARKET_DATA tickA)]"

section \<open>Properties\<close>

subsection \<open>The end-point map\<close>

lemma QMap_append_keys: "set (map fst (QMap_append k v m)) = insert k (set (map fst m))"
  by (induction k v m rule: QMap_append.induct) (simp_all add: insert_commute)

lemma QMap_append_sorted:
  "sorted_wrt (<) (map fst m) \<Longrightarrow> sorted_wrt (<) (map fst (QMap_append k v m))"
proof (induction m)
  case Nil
  then show ?case by simp
next
  case (Cons e m)
  obtain k' vs where e: "e = (k', vs)" by (cases e)
  from Cons.prems have tl: "sorted_wrt (<) (map fst m)" and hd: "\<forall>x\<in>set (map fst m). k' < x"
    by (simp_all add: e)
  show ?case
  proof (cases "k = k'")
    case True
    with Cons.prems show ?thesis by (simp add: e)
  next
    case False
    show ?thesis
    proof (cases "k < k'")
      case True
      with Cons.prems False show ?thesis by (auto simp: e)
    next
      case ge: False
      with False have "k' < k" by simp
      with hd have "\<forall>x\<in>set (map fst (QMap_append k v m)). k' < x"
        by (simp only: QMap_append_keys) simp
      with Cons.IH [OF tl] False ge show ?thesis by (simp add: e)
    qed
  qed
qed

lemma QMap_at_append:
  "sorted_wrt (<) (map fst m) \<Longrightarrow>
   QMap_at (QMap_append k v m) k' = (if k' = k then QMap_at m k @ [v] else QMap_at m k')"
proof (induction m)
  case Nil
  then show ?case by (simp add: QMap_at_def)
next
  case (Cons e m)
  obtain a vs where e: "e = (a, vs)" by (cases e)
  from Cons.prems have tl: "sorted_wrt (<) (map fst m)" and hd: "\<forall>x\<in>set (map fst m). a < x"
    by (simp_all add: e)
  have absent: "k < a \<Longrightarrow> map_of m k = None"
  proof -
    assume "k < a"
    with hd have "k \<notin> set (map fst m)" by auto
    then show ?thesis by (simp add: map_of_eq_None_iff)
  qed
  from Cons.IH [OF tl] absent show ?case
    by (auto simp: e QMap_at_def)
qed


lemma items_sorted:
  "sorted_wrt (<) (map fst m) \<Longrightarrow>
   sorted_wrt (<) (map fst (fold (\<lambda>item m'. QMap_append item i m') items m))"
  by (induction items arbitrary: m) (simp_all add: QMap_append_sorted)

lemma items_keys:
  "set (map fst (fold (\<lambda>item m'. QMap_append item i m') items m)) = set items \<union> set (map fst m)"
  by (induction items arbitrary: m) (simp_all only: fold_simps QMap_append_keys, auto)

lemma items_at:
  "sorted_wrt (<) (map fst m) \<Longrightarrow>
   set (QMap_at (fold (\<lambda>item m'. QMap_append item i m') items m) k) =
     set (QMap_at m k) \<union> (if k \<in> set items then {i} else {})"
proof (induction items arbitrary: m)
  case Nil
  then show ?case by simp
next
  case (Cons a items)
  have "sorted_wrt (<) (map fst (QMap_append a i m))"
    using Cons.prems by (rule QMap_append_sorted)
  from Cons.IH [OF this] Cons.prems show ?case
    by (auto simp: QMap_at_append split: if_splits)
qed


lemma instruments_sorted:
  "sorted_wrt (<) (map fst m) \<Longrightarrow>
   sorted_wrt (<) (map fst (fold (addInstrument env) instruments m))"
  by (induction instruments arbitrary: m) (simp_all add: addInstrument_def items_sorted)

lemma instruments_keys:
  "set (map fst (fold (addInstrument env) instruments m)) =
     (\<Union>i\<in>set instruments. set (getEndPoints env i)) \<union> set (map fst m)"
  by (induction instruments arbitrary: m)
     (simp_all only: fold_simps addInstrument_def items_keys, auto)

lemma instruments_at:
  "sorted_wrt (<) (map fst m) \<Longrightarrow>
   set (QMap_at (fold (addInstrument env) instruments m) k) =
     set (QMap_at m k) \<union> {i \<in> set instruments. k \<in> set (getEndPoints env i)}"
proof (induction instruments arbitrary: m)
  case Nil
  then show ?case by simp
next
  case (Cons a instruments)
  have "sorted_wrt (<) (map fst (addInstrument env a m))"
    using Cons.prems by (simp add: addInstrument_def items_sorted)
  from Cons.IH [OF this] Cons.prems show ?case
    by (auto simp: addInstrument_def items_at split: if_splits)
qed

lemma collectEndPoints_keys:
  "QMap_keys (collectEndPoints env instruments) = closeTimes env instruments"
proof -
  let ?ks = "map fst (fold (addInstrument env) instruments [])"
  have s: "sorted_wrt (<) ?ks" by (rule instruments_sorted) simp
  have "set ?ks = set (closeTimes env instruments)"
    by (simp only: instruments_keys closeTimes_def) simp
  moreover have "sorted ?ks" "distinct ?ks"
    using s by (simp_all add: strict_sorted_iff)
  moreover have "sorted (closeTimes env instruments)" "distinct (closeTimes env instruments)"
    by (simp_all add: closeTimes_def)
  ultimately have "?ks = closeTimes env instruments"
    by (intro sorted_distinct_set_unique)
  then show ?thesis by (simp add: QMap_keys_def collectEndPoints_def)
qed

lemma collectEndPoints_at:
  "set (QMap_at (collectEndPoints env instruments) k) = set (closingAt env instruments k)"
proof -
  have "sorted_wrt (<) (map fst ([] :: endPointsMap))" by simp
  from instruments_at [OF this, of env instruments k] show ?thesis
    by (simp add: collectEndPoints_def closingAt_def QMap_at_def)
qed

lemma sort_closeTimes: "sort (closeTimes env instruments) = closeTimes env instruments"
  by (simp add: closeTimes_def sorted_sort_id)

lemma closeTimes_strict: "sorted_wrt (<) (closeTimes env instruments)"
  by (simp add: closeTimes_def strict_sorted_iff)

lemma set_closeTimes:
  "set (closeTimes env instruments) = (\<Union>i\<in>set instruments. set (getEndPoints env i))"
  by (simp add: closeTimes_def)

lemma setupTimers_multiTimer:
  "multiTimer (setupTimers env w) =
     Some (map (\<lambda>t. addSecs t 60) (closeTimes env (subscribeSet w)))"
  by (simp add: setupTimers_def Let_def collectEndPoints_keys sort_closeTimes)

lemma setupTimers_groups:
  "instrumentsToProcess (setupTimers env w) =
     map (QMap_at (collectEndPoints env (subscribeSet w))) (closeTimes env (subscribeSet w))"
  by (simp add: setupTimers_def Let_def collectEndPoints_keys sort_closeTimes)

lemma setupTimers_group_set:
  "j < length (closeTimes env (subscribeSet w)) \<Longrightarrow>
   set (instrumentsToProcess (setupTimers env w) ! j) =
     set (closingAt env (subscribeSet w) (closeTimes env (subscribeSet w) ! j))"
  by (simp add: setupTimers_groups collectEndPoints_at)

subsection \<open>Rebuilding twice\<close>

lemma rangeTimes_timeValidators:
  "rangeTimes env (w\<lparr>timeValidators := tv\<rparr>) = rangeTimes env w"
  by (simp add: rangeTimes_def Let_def fun_eq_iff)

lemma rangeTimes_timers:
  "rangeTimes env (w\<lparr>instrumentsToProcess := g, multiTimer := m\<rparr>) = rangeTimes env w"
  by (simp add: rangeTimes_def Let_def fun_eq_iff)

lemma addValidator_timeValidators:
  "addValidator env (w\<lparr>timeValidators := tv\<rparr>) = addValidator env w"
  by (simp add: addValidator_def instrumentTimes_def rangeTimes_timeValidators fun_eq_iff)

lemma addValidator_timers:
  "addValidator env (w\<lparr>instrumentsToProcess := g, multiTimer := m\<rparr>) = addValidator env w"
  by (simp add: addValidator_def instrumentTimes_def rangeTimes_timers fun_eq_iff)

text \<open>
  Claim C8. Building the validator table a second time, or the scheduler tables a
  second time, or both one after the other a second time, from unchanged inputs gives
  the watcher that the first build gave: the same boundary lists, the same armed time
  points and the same groups.
\<close>

theorem rebuild_idempotent:
  "setupTimeValidators env (setupTimeValidators env w) = setupTimeValidators env w \<and>
   setupTimers env (setupTimers env w) = setupTimers env w \<and>
   setupTimeValidators env (setupTimers env (setupTimeValidators env (setupTimers env w))) =
     setupTimeValidators env (setupTimers env w)"
proof (intro conjI)
  show "setupTimeValidators env (setupTimeValidators env w) = setupTimeValidators env w"
    by (simp add: setupTimeValidators_def addValidator_timeValidators)
  show "setupTimers env (setupTimers env w) = setupTimers env w"
    by (simp add: setupTimers_def Let_def)
  show "setupTimeValidators env (setupTimers env (setupTimeValidators env (setupTimers env w))) =
     setupTimeValidators env (setupTimers env w)"
    by (simp add: setupTimeValidators_def setupTimers_def Let_def
        addValidator_timeValidators addValidator_timers)
qed

subsection \<open>The flush of a group\<close>

lemma flushInstrument_eq:
  "flushInstrument i w =
     w\<lparr>depthMarketDataListMap := (depthMarketDataListMap w)(i \<mapsto> []),
       outputs := outputs w @ (if bufferOf w i \<noteq> [] then [DataFile i (bufferOf w i)] else [])\<rparr>"
  by (simp add: flushInstrument_def bufferOf_def Let_def)

lemma firstOccurrences_snoc:
  "firstOccurrences (g @ [a]) =
     (if a \<in> set g then firstOccurrences g else firstOccurrences g @ [a])"
  by (simp add: firstOccurrences_def)

lemma fold_flushInstrument: "fold flushInstrument g w = flushed g w"
proof (induction g rule: rev_induct)
  case Nil
  show ?case by (simp add: flushed_def filesFor_def firstOccurrences_def)
next
  case (snoc a g)
  have buf: "bufferOf (flushed g w) a = (if a \<in> set g then [] else bufferOf w a)"
    by (simp add: bufferOf_def flushed_def)
  have "fold flushInstrument (g @ [a]) w = flushInstrument a (flushed g w)"
    by (simp add: snoc.IH)
  also have "\<dots> = flushed (g @ [a]) w"
    unfolding flushInstrument_eq buf
    by (auto simp: flushed_def filesFor_def firstOccurrences_snoc fun_eq_iff)
  finally show ?case .
qed

lemma saveInstruments_in_range:
  "0 \<le> index \<Longrightarrow> index < int (length (instrumentsToProcess w)) \<Longrightarrow>
   saveInstruments index w = Inr (flushed (instrumentsToProcess w ! nat index) w)"
  by (simp add: saveInstruments_def fold_flushInstrument)

subsection \<open>The concrete setting evaluated\<close>

lemma demo_simps:
  "getEndPoints demo = demoEndPoints" "getTradingTimeRanges demo = demoRanges"
  "mapTime demo = demoMapTime" "hhmmssToSec demo = demoHhmmssToSec"
  "isTradingDay demo = demoIsTradingDay" "nextTradingDay demo = demoNextTradingDay"
  by (simp_all add: demo_def)

lemma demo_timers:
  "setupTimers demo fresh =
     fresh\<lparr>instrumentsToProcess := [[''A'', ''B'', ''C''], [''C'']],
            multiTimer := Some [54060000, 82860000]\<rparr>"
  by (simp add: setupTimers_def collectEndPoints_def addInstrument_def QMap_keys_def
      QMap_at_def demo_simps demoEndPoints_def fresh_def addSecs_def addMSecs_def
      QTime_isValid_def QTime_ds_def NullTime_def MSECS_PER_DAY_def)

lemma demo_instrumentTimes:
  "tradingDayOfMapTime w = ''20230224'' \<Longrightarrow> earliestTime w = 0 \<Longrightarrow>
   instrumentTimes demo w ''A'' = [1677229200, 1677250800] \<and>
   instrumentTimes demo w ''B'' = [1677229200, 1677250800] \<and>
   instrumentTimes demo w ''C'' = [1677229200, 1677250800, 1677272400, 1677279600]"
  by (simp add: instrumentTimes_def rangeTimes_def demo_simps demoRanges_def demoMapTime_def
      msecsSinceStartOfDay_def QTime_ds_def NullTime_def)

lemma copySlots_demo:
  "copySlots [''A'', ''B'', ''C''] = Inr [''A'', ''B'', ''C'']"
  "copySlots [''A''] = Inr [''A'']" "copySlots [''C''] = Inr [''C'']"
  "copySlots [''D''] = Inr [''D'']" "copySlots [''A'', ''C''] = Inr [''A'', ''C'']"
  by (simp_all add: copySlots_def cString_def)

lemma loggedDemo_result:
  "customEvent demo ''20230224'' 0 RSP_USER_LOGIN (setupTimers demo fresh) =
   Inr \<lparr>brokerID = ''9999'', userID = ''watcher'', password = ''secret'', nRequestID = 0,
      saveDepthMarketData = True, subscribeSet = [''A'', ''B'', ''C''],
      loggedIn = True, currentTradingDay = ''20230224'', tradingDayOfMapTime = ''20230224'',
      earliestTime = 0,
      timeValidators =
        [''A'' \<mapsto> newTimeValidator [1677229200, 1677250800],
         ''B'' \<mapsto> newTimeValidator [1677229200, 1677250800],
         ''C'' \<mapsto> newTimeValidator [1677229200, 1677250800, 1677272400, 1677279600]],
      instrumentsToProcess = [[''A'', ''B'', ''C''], [''C'']],
      multiTimer = Some [54060000, 82860000],
      depthMarketDataListMap = Map.empty,
      outputs = [TradingDayChanged ''20230224'', SubscribeMarketData [''A'', ''B'', ''C'']]\<rparr>"
  unfolding customEvent.simps demo_timers
  by (simp add: rspUserLogin_def userLoggedIn_def Let_def subscribe_def copySlots_demo
      setupTimeValidators_def addValidator_def demo_instrumentTimes fresh_def)

lemma loggedDemo_eq:
  "loggedDemo =
     \<lparr>brokerID = ''9999'', userID = ''watcher'', password = ''secret'', nRequestID = 0,
      saveDepthMarketData = True, subscribeSet = [''A'', ''B'', ''C''],
      loggedIn = True, currentTradingDay = ''20230224'', tradingDayOfMapTime = ''20230224'',
      earliestTime = 0,
      timeValidators =
        [''A'' \<mapsto> newTimeValidator [1677229200, 1677250800],
         ''B'' \<mapsto> newTimeValidator [1677229200, 1677250800],
         ''C'' \<mapsto> newTimeValidator [1677229200, 1677250800, 1677272400, 1677279600]],
      instrumentsToProcess = [[''A'', ''B'', ''C''], [''C'']],
      multiTimer = Some [54060000, 82860000],
      depthMarketDataListMap = Map.empty,
      outputs = [TradingDayChanged ''20230224'', SubscribeMarketData [''A'', ''B'', ''C'']]\<rparr>"
  unfolding loggedDemo_def loggedDemo_result by simp

lemma loggedDemo_reached:
  "customEvent demo ''20230224'' 0 RSP_USER_LOGIN (setupTimers demo fresh) = Inr loggedDemo"
  unfolding loggedDemo_def loggedDemo_result by simp

lemma buffered_eq:
  "buffered =
     loggedDemo\<lparr>timeValidators := (timeValidators loggedDemo)
                   (''A'' \<mapsto> \<lparr>tradingTimePoints = [1677229200, 1677250800],
                               latestTime = 1677232800500\<rparr>),
                 depthMarketDataListMap := [''A'' \<mapsto> [stampedA]],
                 outputs := outputs loggedDemo @ [publishedA]\<rparr>"
  by (simp add: buffered_def processDepthMarketData_def publish_def validate_def Let_def
      loggedDemo_eq newTimeValidator_def tickA_def demo_simps demoHhmmssToSec_def
      digitValue_def demoMapTime_def bufferOf_def stampActionDay_def stampedA_def publishedA_def)

lemma demo_calendar:
  "demoIsTradingDay 2459997" "\<not> demoIsTradingDay 2459998" "demoNextTradingDay 2459998 = 2460000"
  "demoIsTradingDay 2460000" "\<not> demoIsTradingDay 2460001" "demoNextTradingDay 2460001 = 2460003"
  "\<not> demoIsTradingDay 2460002"
  by (simp_all add: demoNextTradingDay_def demoIsTradingDay_def)

lemma buffered_flush:
  "saveInstruments 0 buffered =
     Inr (buffered\<lparr>depthMarketDataListMap := [''A'' \<mapsto> [], ''B'' \<mapsto> [], ''C'' \<mapsto> []],
                   outputs := outputs buffered @ [DataFile ''A'' [stampedA]]\<rparr>)"
proof -
  have "saveInstruments 0 buffered = Inr (flushed (instrumentsToProcess buffered ! nat 0) buffered)"
    by (rule saveInstruments_in_range) (simp_all add: buffered_eq loggedDemo_eq)
  then show ?thesis
    by (simp add: buffered_eq loggedDemo_eq flushed_def filesFor_def firstOccurrences_def
        bufferOf_def fun_eq_iff)
qed

lemma fresh_fields:
  "currentTradingDay fresh = []" "subscribeSet fresh = [''A'', ''B'', ''C'']"
  "earliestTime fresh = 0" "saveDepthMarketData fresh" "\<not> loggedIn fresh"
  by (simp_all add: fresh_def)

subsection \<open>Firing on a trading day\<close>

text \<open>
  Claim C9. A firing for a group index inside the table on a trading day writes one
  data file for each instrument of that group whose buffer is not empty, holding the
  buffer, leaves every instrument of the group with an empty buffer, and leaves the
  buffer of every other instrument, and everything else, as it was.
\<close>

theorem timesUp_trading_day:
  assumes "isTradingDay env today"
    and "0 \<le> index" and "index < int (length (instrumentsToProcess w))"
  shows "timesUp env today currentTime index w =
           Inr (w\<lparr>depthMarketDataListMap :=
                    (\<lambda>i. if i \<in> set (instrumentsToProcess w ! nat index) then Some []
                          else depthMarketDataListMap w i),
                  outputs := outputs w @
                    map (\<lambda>i. DataFile i (bufferOf w i))
                      (filter (\<lambda>i. bufferOf w i \<noteq> [])
                         (firstOccurrences (instrumentsToProcess w ! nat index)))\<rparr>)"
  using assms by (simp add: timesUp_def saveInstruments_in_range flushed_def filesFor_def)

theorem timesUp_trading_day_witness:
  "timesUp demo 2460000 (QTime_hm 15 1) 0 buffered =
     Inr (buffered\<lparr>depthMarketDataListMap := [''A'' \<mapsto> [], ''B'' \<mapsto> [], ''C'' \<mapsto> []],
                   outputs := outputs buffered @ [DataFile ''A'' [stampedA]]\<rparr>)"
proof -
  have day: "isTradingDay demo 2460000"
    by (simp add: demo_simps demoIsTradingDay_def)
  have lo: "(0::int) \<le> 0" by simp
  have hi: "0 < int (length (instrumentsToProcess buffered))"
    by (simp add: buffered_eq loggedDemo_eq)
  show ?thesis
    unfolding timesUp_trading_day [OF day lo hi]
    by (simp add: buffered_eq loggedDemo_eq firstOccurrences_def bufferOf_def fun_eq_iff)
qed

subsection \<open>Firing on a day that is not a trading day\<close>

text \<open>
  Claim C3, as the code has it. On a trading day a firing is the normal flush. On a day
  that is not a trading day it is the normal flush when the day before is a trading
  day, the next trading day is two days later and the time of day is not later than
  05:00:00.000, whatever the day of the week; otherwise it empties every buffer and
  writes nothing.
\<close>

theorem timesUp_calendar:
  "(isTradingDay env today \<longrightarrow>
      timesUp env today currentTime index w = saveInstruments index w) \<and>
   (\<not> isTradingDay env today \<longrightarrow>
      timesUp env today currentTime index w =
        (if isTradingDay env (addDays today (- 1)) \<and>
            nextTradingDay env today = addDays today 2 \<and>
            currentTime \<le> QTime_hm 5 0
         then saveInstruments index w
         else Inr (w\<lparr>depthMarketDataListMap := Map.empty\<rparr>)))"
  by (auto simp: timesUp_def Let_def)

theorem timesUp_calendar_witness:
  "isTradingDay demo 2460000 \<and>
   timesUp demo 2460000 (QTime_hm 15 1) 0 buffered = saveInstruments 0 buffered \<and>
   \<not> isTradingDay demo 2459998 \<and>
   timesUp demo 2459998 (QTime_hm 3 0) 0 buffered = saveInstruments 0 buffered \<and>
   timesUp demo 2459998 (QTime_hm 5 1) 0 buffered =
     Inr (buffered\<lparr>depthMarketDataListMap := Map.empty\<rparr>) \<and>
   \<not> isTradingDay demo 2460002 \<and>
   timesUp demo 2460002 (QTime_hm 3 0) 0 buffered =
     Inr (buffered\<lparr>depthMarketDataListMap := Map.empty\<rparr>)"
  using timesUp_calendar [of demo 2460000 "QTime_hm 15 1" 0 buffered]
    timesUp_calendar [of demo 2459998 "QTime_hm 3 0" 0 buffered]
    timesUp_calendar [of demo 2459998 "QTime_hm 5 1" 0 buffered]
    timesUp_calendar [of demo 2460002 "QTime_hm 3 0" 0 buffered]
  by (simp add: demo_simps demo_calendar addDays_def QTime_hm_def)

text \<open>
  Claim C3 as stated fails twice. Wednesday 2023-02-22 is not a trading day and not a
  Saturday, yet a firing at 03:00 writes the buffer of A. On Saturday 2023-02-25, at
  05:00:00.000, which is not before 05:00, the firing still writes it.
\<close>

theorem timesUp_not_only_saturday:
  "\<not> isTradingDay demo 2459998 \<and> dayOfWeek 2459998 = 3 \<and>
   map_sum id (\<lambda>w. filesIn (emittedBy buffered w))
     (timesUp demo 2459998 (QTime_hm 3 0) 0 buffered) = Inr [(''A'', [stampedA])] \<and>
   \<not> isTradingDay demo 2460001 \<and> dayOfWeek 2460001 = 6 \<and>
   isTradingDay demo (addDays 2460001 (- 1)) \<and>
   nextTradingDay demo 2460001 = addDays 2460001 2 \<and>
   \<not> QTime_hm 5 0 < QTime_hm 5 0 \<and>
   map_sum id (\<lambda>w. filesIn (emittedBy buffered w))
     (timesUp demo 2460001 (QTime_hm 5 0) 0 buffered) = Inr [(''A'', [stampedA])]"
  by (simp add: timesUp_def Let_def demo_simps demo_calendar addDays_def QTime_hm_def
      dayOfWeek_def buffered_flush emittedBy_def)

subsection \<open>The armed time points\<close>

lemma addSecs_valid:
  "QTime_isValid t \<Longrightarrow> addSecs t 60 = (t + 60000) mod 86400000"
  by (simp add: addSecs_def addMSecs_def QTime_isValid_def QTime_ds_def NullTime_def
      MSECS_PER_DAY_def smod_mod_positive)

lemma addSecs_before_last_minute:
  "0 \<le> t \<Longrightarrow> t < 86340000 \<Longrightarrow> addSecs t 60 = t + 60000"
  by (simp add: addSecs_def addMSecs_def QTime_isValid_def QTime_ds_def NullTime_def
      MSECS_PER_DAY_def smod_mod_positive)

lemma sorted_addSecs:
  "sorted_wrt (<) ts \<Longrightarrow> \<forall>t\<in>set ts. 0 \<le> t \<and> t < 86340000 \<Longrightarrow>
   sorted_wrt (<) (map (\<lambda>t. addSecs t 60) ts)"
proof -
  assume s: "sorted_wrt (<) ts" and r: "\<forall>t\<in>set ts. 0 \<le> t \<and> t < 86340000"
  from r have eq: "map (\<lambda>t. addSecs t 60) ts = map (\<lambda>t. t + 60000) ts"
    by (simp add: addSecs_before_last_minute)
  show ?thesis unfolding eq using s by (simp add: sorted_wrt_map)
qed

lemma demo_closeTimes: "closeTimes demo [''A'', ''B'', ''C''] = [54000000, 82800000]"
  by (simp add: closeTimes_def demo_simps demoEndPoints_def)

text \<open>
  Claim C4, as the code has it. The list the timer is built from holds, for each
  distinct close time of the subscribed instruments taken in ascending order, that
  time moved forward by 60 seconds on the clock of one day; for a valid time that is
  the time plus 60000 ms modulo one day. When no close time lies in the last minute
  of the day, every armed time point is a close time plus exactly 60 seconds and the
  armed list is itself ascending.
\<close>

theorem armed_time_points:
  "multiTimer (setupTimers env w) =
     Some (map (\<lambda>t. addSecs t 60) (closeTimes env (subscribeSet w))) \<and>
   sorted_wrt (<) (closeTimes env (subscribeSet w)) \<and>
   set (closeTimes env (subscribeSet w)) =
     (\<Union>i\<in>set (subscribeSet w). set (getEndPoints env i)) \<and>
   (\<forall>t\<in>set (closeTimes env (subscribeSet w)).
      QTime_isValid t \<longrightarrow> addSecs t 60 = (t + 60000) mod 86400000) \<and>
   ((\<forall>t\<in>set (closeTimes env (subscribeSet w)). 0 \<le> t \<and> t < 86340000) \<longrightarrow>
      (\<forall>t\<in>set (closeTimes env (subscribeSet w)). addSecs t 60 = t + 60000) \<and>
      sorted_wrt (<) (map (\<lambda>t. addSecs t 60) (closeTimes env (subscribeSet w))))"
  by (simp add: setupTimers_multiTimer closeTimes_strict set_closeTimes addSecs_valid
      addSecs_before_last_minute sorted_addSecs)

theorem armed_time_points_witness:
  "closeTimes demo (subscribeSet fresh) = [54000000, 82800000] \<and>
   (0 \<le> (54000000::int) \<and> (54000000::int) < 86340000) \<and>
   (0 \<le> (82800000::int) \<and> (82800000::int) < 86340000) \<and>
   multiTimer (setupTimers demo fresh) = Some [54060000, 82860000] \<and>
   sorted_wrt (<) (map (\<lambda>t. addSecs t 60) (closeTimes demo (subscribeSet fresh)))"
proof -
  have c: "closeTimes demo (subscribeSet fresh) = [54000000, 82800000]"
    by (simp add: fresh_def demo_closeTimes)
  have r: "\<forall>t\<in>set (closeTimes demo (subscribeSet fresh)). 0 \<le> t \<and> t < 86340000"
    by (simp add: c)
  from armed_time_points [of demo fresh] r
  have "multiTimer (setupTimers demo fresh) =
          Some (map (\<lambda>t. addSecs t 60) (closeTimes demo (subscribeSet fresh)))"
    and "\<forall>t\<in>set (closeTimes demo (subscribeSet fresh)). addSecs t 60 = t + 60000"
    and "sorted_wrt (<) (map (\<lambda>t. addSecs t 60) (closeTimes demo (subscribeSet fresh)))"
    by blast+
  then show ?thesis by (simp add: c)
qed

text \<open>
  Claim C4 as stated fails for a session that closes in the last minute of the day:
  with close times 15:00:00 and 23:59:30 the armed list is 15:01:00 followed by
  00:00:30, which is not ascending, and 00:00:30 is not 23:59:30 plus 60 seconds as a
  time of day.
\<close>

theorem armed_wraps_past_midnight:
  "getEndPoints lateClose ''A'' = [54000000] \<and> getEndPoints lateClose ''B'' = [86370000] \<and>
   QTime_isValid 86370000 \<and>
   multiTimer (setupTimers lateClose (fresh\<lparr>subscribeSet := [''A'', ''B'']\<rparr>)) =
     Some [54060000, 30000] \<and>
   \<not> sorted_wrt (<) [54060000, 30000 :: int] \<and>
   (30000 :: int) \<noteq> 86370000 + 60000"
  by (simp add: setupTimers_multiTimer closeTimes_def lateClose_def fresh_def addSecs_valid
      QTime_isValid_def NullTime_def MSECS_PER_DAY_def)

subsection \<open>Groups\<close>

lemma bufferedAC_eq:
  "bufferedAC =
     buffered\<lparr>timeValidators := (timeValidators buffered)
                   (''C'' \<mapsto> \<lparr>tradingTimePoints =
                                 [1677229200, 1677250800, 1677272400, 1677279600],
                               latestTime = 1677232800500\<rparr>),
               depthMarketDataListMap := [''A'' \<mapsto> [stampedA], ''C'' \<mapsto> [stampedC]],
               outputs := outputs buffered @
                 [NewMarketData ''C'' 1677232800500 0x40A7700000000000 10
                    0x40A7720000000000 3 0x40A76E0000000000 4]\<rparr>"
  by (simp add: bufferedAC_def processDepthMarketData_def publish_def validate_def Let_def
      buffered_eq loggedDemo_eq newTimeValidator_def tickC_def tickA_def demo_simps
      demoHhmmssToSec_def digitValue_def demoMapTime_def bufferOf_def stampActionDay_def
      stampedC_def)

lemma timesUp_cases:
  "j < length (instrumentsToProcess w) \<Longrightarrow>
   timesUp env today currentTime (int j) w =
     (if isTradingDay env today \<or>
         (isTradingDay env (addDays today (- 1)) \<and>
          nextTradingDay env today = addDays today 2 \<and>
          currentTime \<le> QTime_hm 5 0)
      then Inr (flushed (instrumentsToProcess w ! j) w)
      else Inr (w\<lparr>depthMarketDataListMap := Map.empty\<rparr>))"
  by (simp add: timesUp_def Let_def saveInstruments_def fold_flushInstrument) (meson leD)

lemma set_firstOccurrences: "set (firstOccurrences g) = set g"
  by (simp add: firstOccurrences_def)

lemma filesIn_DataFile:
  "filesIn (map (\<lambda>i. DataFile i (f i)) xs) = map (\<lambda>i. (i, f i)) xs"
  by (induction xs) simp_all

lemma files_of_flushed:
  "set (filesIn (emittedBy w (flushed g w))) =
     {(i, bufferOf w i) | i. i \<in> set g \<and> bufferOf w i \<noteq> []}"
  by (auto simp: emittedBy_def flushed_def filesFor_def filesIn_DataFile set_firstOccurrences)

lemma bufferOf_setupTimers: "bufferOf (setupTimers env w) = bufferOf w"
  by (simp add: bufferOf_def setupTimers_def Let_def fun_eq_iff)

text \<open>
  Claim C2, as the code has it. There is one group for each distinct close time, in
  ascending order of the close times and in step with the armed list: group \<open>j\<close>
  holds exactly the subscribed instruments that have the \<open>j\<close>-th close time among
  their session closes. So two instruments with the same close times are in the same
  groups, and an instrument with several close times is in several groups. A firing
  that carries index \<open>j\<close> flushes group \<open>j\<close> on a trading day and in the morning
  window of \<^verbatim>\<open>timesUp\<close>, and empties every buffer on any other day; the flush of
  group \<open>j\<close> writes and empties the buffers of exactly the subscribed instruments
  that have the \<open>j\<close>-th close time and leaves the other buffers as they were.
\<close>

theorem groups_by_close_time:
  "multiTimer (setupTimers env w) =
     Some (map (\<lambda>t. addSecs t 60) (closeTimes env (subscribeSet w))) \<and>
   length (instrumentsToProcess (setupTimers env w)) = length (closeTimes env (subscribeSet w)) \<and>
   (\<forall>j<length (closeTimes env (subscribeSet w)).
      set (instrumentsToProcess (setupTimers env w) ! j) =
        {i \<in> set (subscribeSet w). closeTimes env (subscribeSet w) ! j \<in> set (getEndPoints env i)}) \<and>
   (\<forall>j<length (closeTimes env (subscribeSet w)).
      \<forall>a\<in>set (subscribeSet w). \<forall>b\<in>set (subscribeSet w).
        set (getEndPoints env a) = set (getEndPoints env b) \<longrightarrow>
        (a \<in> set (instrumentsToProcess (setupTimers env w) ! j) \<longleftrightarrow>
         b \<in> set (instrumentsToProcess (setupTimers env w) ! j))) \<and>
   (\<forall>j<length (closeTimes env (subscribeSet w)).
      timesUp env today currentTime (int j) (setupTimers env w) =
        (if isTradingDay env today \<or>
            (isTradingDay env (addDays today (- 1)) \<and>
             nextTradingDay env today = addDays today 2 \<and>
             currentTime \<le> QTime_hm 5 0)
         then Inr (flushed (instrumentsToProcess (setupTimers env w) ! j) (setupTimers env w))
         else Inr ((setupTimers env w)\<lparr>depthMarketDataListMap := Map.empty\<rparr>))) \<and>
   (\<forall>j<length (closeTimes env (subscribeSet w)).
      (\<forall>i. depthMarketDataListMap
             (flushed (instrumentsToProcess (setupTimers env w) ! j) (setupTimers env w)) i =
           (if i \<in> set (subscribeSet w) \<and>
               closeTimes env (subscribeSet w) ! j \<in> set (getEndPoints env i)
            then Some [] else depthMarketDataListMap w i)) \<and>
      set (filesIn (emittedBy (setupTimers env w)
             (flushed (instrumentsToProcess (setupTimers env w) ! j) (setupTimers env w)))) =
        {(i, bufferOf w i) | i.
           i \<in> set (subscribeSet w) \<and>
           closeTimes env (subscribeSet w) ! j \<in> set (getEndPoints env i) \<and>
           bufferOf w i \<noteq> []})"
proof -
  let ?ts = "closeTimes env (subscribeSet w)"
  let ?w = "setupTimers env w"
  let ?g = "instrumentsToProcess ?w"
  have len: "length ?g = length ?ts"
    by (simp add: setupTimers_groups)
  have grp: "set (?g ! j) = {i \<in> set (subscribeSet w). ?ts ! j \<in> set (getEndPoints env i)}"
    if "j < length ?ts" for j
    using that by (simp add: setupTimers_group_set closingAt_def)
  have same: "a \<in> set (?g ! j) \<longleftrightarrow> b \<in> set (?g ! j)"
    if "j < length ?ts" "a \<in> set (subscribeSet w)" "b \<in> set (subscribeSet w)"
      "set (getEndPoints env a) = set (getEndPoints env b)" for j a b
    using that by (simp add: grp)
  have fire: "timesUp env today currentTime (int j) ?w =
        (if isTradingDay env today \<or>
            (isTradingDay env (addDays today (- 1)) \<and>
             nextTradingDay env today = addDays today 2 \<and>
             currentTime \<le> QTime_hm 5 0)
         then Inr (flushed (?g ! j) ?w)
         else Inr (?w\<lparr>depthMarketDataListMap := Map.empty\<rparr>))"
    if "j < length ?ts" for j
    using that len by (simp add: timesUp_cases)
  have bufs: "depthMarketDataListMap (flushed (?g ! j) ?w) i =
           (if i \<in> set (subscribeSet w) \<and> ?ts ! j \<in> set (getEndPoints env i)
            then Some [] else depthMarketDataListMap w i)"
    if "j < length ?ts" for j i
    using grp [OF that] by (simp add: flushed_def setupTimers_def Let_def)
  have files: "set (filesIn (emittedBy ?w (flushed (?g ! j) ?w))) =
        {(i, bufferOf w i) | i.
           i \<in> set (subscribeSet w) \<and> ?ts ! j \<in> set (getEndPoints env i) \<and>
           bufferOf w i \<noteq> []}"
    if "j < length ?ts" for j
    using grp [OF that] by (simp add: files_of_flushed bufferOf_setupTimers)
  show ?thesis
proof (intro conjI allI impI)
    show "multiTimer ?w = Some (map (\<lambda>t. addSecs t 60) ?ts)"
      by (simp add: setupTimers_multiTimer)
    show "length ?g = length ?ts" by (rule len)
    show "set (?g ! j) = {i \<in> set (subscribeSet w). ?ts ! j \<in> set (getEndPoints env i)}"
      if "j < length ?ts" for j
      using that by (rule grp)
    show "\<forall>a\<in>set (subscribeSet w). \<forall>b\<in>set (subscribeSet w).
        set (getEndPoints env a) = set (getEndPoints env b) \<longrightarrow>
        (a \<in> set (?g ! j) \<longleftrightarrow> b \<in> set (?g ! j))"
      if "j < length ?ts" for j
      using same [OF that] by blast
    show "timesUp env today currentTime (int j) ?w =
        (if isTradingDay env today \<or>
            (isTradingDay env (addDays today (- 1)) \<and>
             nextTradingDay env today = addDays today 2 \<and>
             currentTime \<le> QTime_hm 5 0)
         then Inr (flushed (?g ! j) ?w)
         else Inr (?w\<lparr>depthMarketDataListMap := Map.empty\<rparr>))"
      if "j < length ?ts" for j
      using that by (rule fire)
    show "depthMarketDataListMap (flushed (?g ! j) ?w) i =
           (if i \<in> set (subscribeSet w) \<and> ?ts ! j \<in> set (getEndPoints env i)
            then Some [] else depthMarketDataListMap w i)"
      if "j < length ?ts" for j i
      using that by (rule bufs)
    show "set (filesIn (emittedBy ?w (flushed (?g ! j) ?w))) =
        {(i, bufferOf w i) | i.
           i \<in> set (subscribeSet w) \<and> ?ts ! j \<in> set (getEndPoints env i) \<and>
           bufferOf w i \<noteq> []}"
      if "j < length ?ts" for j
      using that by (rule files)
  qed
qed

theorem groups_by_close_time_witness:
  "closeTimes demo (subscribeSet fresh) = [54000000, 82800000] \<and>
   set (instrumentsToProcess (setupTimers demo fresh) ! 0) = {''A'', ''B'', ''C''} \<and>
   set (instrumentsToProcess (setupTimers demo fresh) ! 1) = {''C''} \<and>
   (''A'' \<in> set (instrumentsToProcess (setupTimers demo fresh) ! 1) \<longleftrightarrow>
    ''B'' \<in> set (instrumentsToProcess (setupTimers demo fresh) ! 1)) \<and>
   isTradingDay demo 2460000 \<and>
   timesUp demo 2460000 (QTime_hm 23 1) 1 (setupTimers demo fresh) =
     Inr (flushed (instrumentsToProcess (setupTimers demo fresh) ! 1) (setupTimers demo fresh)) \<and>
   closeTimes apart (subscribeSet fresh) = [54000000, 82800000] \<and>
   multiTimer (setupTimers apart fresh) = Some [54060000, 82860000] \<and>
   set (instrumentsToProcess (setupTimers apart fresh) ! 0) = {''A'', ''B''} \<and>
   set (instrumentsToProcess (setupTimers apart fresh) ! 1) = {''C''} \<and>
   timesUp apart 2460000 (QTime_hm 15 1) 0 (setupTimers apart fresh) =
     Inr (flushed (instrumentsToProcess (setupTimers apart fresh) ! 0) (setupTimers apart fresh)) \<and>
   depthMarketDataListMap
     (flushed (instrumentsToProcess (setupTimers apart fresh) ! 0) (setupTimers apart fresh)) ''C'' =
     depthMarketDataListMap fresh ''C'' \<and>
   depthMarketDataListMap
     (flushed (instrumentsToProcess (setupTimers apart fresh) ! 0) (setupTimers apart fresh)) ''A'' =
     Some [] \<and>
   \<not> isTradingDay apart 2460002 \<and> \<not> isTradingDay apart (addDays 2460002 (- 1)) \<and>
   timesUp apart 2460002 (QTime_hm 15 1) 0 (setupTimers apart fresh) =
     Inr ((setupTimers apart fresh)\<lparr>depthMarketDataListMap := Map.empty\<rparr>)"
proof -
  have c: "closeTimes demo (subscribeSet fresh) = [54000000, 82800000]"
    by (simp add: fresh_fields demo_closeTimes)
  have s: "subscribeSet fresh = [''A'', ''B'', ''C'']" by (simp add: fresh_fields)
  have d: "isTradingDay demo 2460000" by (simp add: demo_simps demo_calendar)
  have e: "getEndPoints apart = (\<lambda>i. if i = ''C'' then [82800000] else demoEndPoints i)"
    "isTradingDay apart = demoIsTradingDay" "nextTradingDay apart = demoNextTradingDay"
    by (simp_all add: apart_def demo_def)
  have c': "closeTimes apart (subscribeSet fresh) = [54000000, 82800000]"
    by (simp add: s closeTimes_def e demoEndPoints_def)
  have n: "\<not> isTradingDay apart 2460002" "\<not> isTradingDay apart (addDays 2460002 (- 1))"
    by (simp_all add: e demo_calendar addDays_def demoIsTradingDay_def)
  note t = groups_by_close_time [of demo fresh 2460000 "QTime_hm 23 1", unfolded c]
  note g = t [THEN conjunct2, THEN conjunct2, THEN conjunct1, rule_format]
  note f = t [THEN conjunct2, THEN conjunct2, THEN conjunct2, THEN conjunct2, THEN conjunct1,
      rule_format]
  from g [of 0] have g0: "set (instrumentsToProcess (setupTimers demo fresh) ! 0) = {''A'', ''B'', ''C''}"
    by (auto simp: s demo_simps demoEndPoints_def)
  from g [of 1] have g1: "set (instrumentsToProcess (setupTimers demo fresh) ! 1) = {''C''}"
    by (auto simp: s demo_simps demoEndPoints_def)
  from f [of 1] d
  have f1: "timesUp demo 2460000 (QTime_hm 23 1) 1 (setupTimers demo fresh) =
     Inr (flushed (instrumentsToProcess (setupTimers demo fresh) ! 1) (setupTimers demo fresh))"
    by simp
  note t' = groups_by_close_time [of apart fresh 2460000 "QTime_hm 15 1", unfolded c']
  note g' = t' [THEN conjunct2, THEN conjunct2, THEN conjunct1, rule_format]
  note f' = t' [THEN conjunct2, THEN conjunct2, THEN conjunct2, THEN conjunct2, THEN conjunct1,
      rule_format]
  note b' = t' [THEN conjunct2, THEN conjunct2, THEN conjunct2, THEN conjunct2, THEN conjunct2,
      rule_format, THEN conjunct1, rule_format]
  note t'' = groups_by_close_time [of apart fresh 2460002 "QTime_hm 15 1", unfolded c']
  note f'' = t'' [THEN conjunct2, THEN conjunct2, THEN conjunct2, THEN conjunct2, THEN conjunct1,
      rule_format]
  from t' [THEN conjunct1]
  have m': "multiTimer (setupTimers apart fresh) = Some [54060000, 82860000]"
    by (simp add: addSecs_before_last_minute)
  from g' [of 0] have g0': "set (instrumentsToProcess (setupTimers apart fresh) ! 0) = {''A'', ''B''}"
    by (auto simp: s e demoEndPoints_def)
  from g' [of 1] have g1': "set (instrumentsToProcess (setupTimers apart fresh) ! 1) = {''C''}"
    by (auto simp: s e demoEndPoints_def)
  from f' [of 0]
  have f0': "timesUp apart 2460000 (QTime_hm 15 1) 0 (setupTimers apart fresh) =
     Inr (flushed (instrumentsToProcess (setupTimers apart fresh) ! 0) (setupTimers apart fresh))"
    by (simp add: e demo_calendar)
  from f'' [of 0] n
  have f0'': "timesUp apart 2460002 (QTime_hm 15 1) 0 (setupTimers apart fresh) =
     Inr ((setupTimers apart fresh)\<lparr>depthMarketDataListMap := Map.empty\<rparr>)"
    by simp
  from b' [of 0 "''C''"]
  have bC: "depthMarketDataListMap
     (flushed (instrumentsToProcess (setupTimers apart fresh) ! 0) (setupTimers apart fresh)) ''C'' =
     depthMarketDataListMap fresh ''C''"
    by (simp add: s e demoEndPoints_def)
  from b' [of 0 "''A''"]
  have bA: "depthMarketDataListMap
     (flushed (instrumentsToProcess (setupTimers apart fresh) ! 0) (setupTimers apart fresh)) ''A'' =
     Some []"
    by (simp add: s e demoEndPoints_def)
  have ab: "''A'' \<in> set (instrumentsToProcess (setupTimers demo fresh) ! 1) \<longleftrightarrow>
    ''B'' \<in> set (instrumentsToProcess (setupTimers demo fresh) ! 1)"
    unfolding g1 by simp
  show ?thesis
    by (intro conjI) (rule c g0 g1 ab d f1 c' m' g0' g1' f0' f0'' bC bA n)+
qed

text \<open>
  Claim C2 as stated fails: the groups are not a partition by whole schedules. A and B
  close at 15:00 only, C closes at 15:00 and 23:00. C is in both groups, and the firing
  of the time point that A and B share writes the buffer of C as well.
\<close>

theorem groups_overlap:
  "set (getEndPoints demo ''A'') = set (getEndPoints demo ''B'') \<and>
   set (getEndPoints demo ''A'') \<noteq> set (getEndPoints demo ''C'') \<and>
   multiTimer (setupTimers demo fresh) = Some [54060000, 82860000] \<and>
   instrumentsToProcess (setupTimers demo fresh) = [[''A'', ''B'', ''C''], [''C'']] \<and>
   instrumentsToProcess bufferedAC = instrumentsToProcess (setupTimers demo fresh) \<and>
   isTradingDay demo 2460000 \<and>
   map_sum id (\<lambda>w. filesIn (emittedBy bufferedAC w))
     (timesUp demo 2460000 (QTime_hm 15 1) 0 bufferedAC) =
     Inr [(''A'', [stampedA]), (''C'', [stampedC])]"
proof -
  have "saveInstruments 0 bufferedAC = Inr (flushed (instrumentsToProcess bufferedAC ! nat 0) bufferedAC)"
    by (rule saveInstruments_in_range) (simp_all add: bufferedAC_eq buffered_eq loggedDemo_eq)
  then have "map_sum id (\<lambda>w. filesIn (emittedBy bufferedAC w))
     (timesUp demo 2460000 (QTime_hm 15 1) 0 bufferedAC) =
     Inr [(''A'', [stampedA]), (''C'', [stampedC])]"
    by (simp add: timesUp_def demo_simps demo_calendar bufferedAC_eq buffered_eq loggedDemo_eq
        flushed_def filesFor_def firstOccurrences_def bufferOf_def emittedBy_def)
  moreover have "instrumentsToProcess bufferedAC = [[''A'', ''B'', ''C''], [''C'']]"
    by (simp add: bufferedAC_eq buffered_eq loggedDemo_eq)
  ultimately show ?thesis
    by (simp add: demo_timers demo_simps demoEndPoints_def demo_calendar)
qed

subsection \<open>The validator table\<close>

lemma rangeTimes_eq:
  "rangeTimes env w r =
     (if earliestTime w \<le> mapped env w (fst r)
      then [mapped env w (fst r), mapped env w (snd r)] else [])"
  by (simp add: rangeTimes_def mapped_def Let_def)

lemma concat_map_filter:
  "concat (map (\<lambda>r. if P r then f r else []) rs) = concat (map f (filter P rs))"
  by (induction rs) simp_all

lemma instrumentTimes_eq:
  "instrumentTimes env w i =
     concat (map (\<lambda>r. [mapped env w (fst r), mapped env w (snd r)]) (survivingRanges env w i))"
  unfolding instrumentTimes_def survivingRanges_def
  by (simp add: rangeTimes_eq [abs_def] concat_map_filter)

lemma instrumentTimes_Nil: "instrumentTimes env w i = [] \<longleftrightarrow> survivingRanges env w i = []"
  by (cases "survivingRanges env w i") (simp_all add: instrumentTimes_eq)

lemma sort_instrumentTimes: "sort (instrumentTimes env w i) = survivingBoundaries env w i"
  by (simp add: instrumentTimes_eq survivingBoundaries_def)

lemma fold_addValidator:
  "fold (addValidator env w) xs tv i =
     (if i \<in> set xs \<and> instrumentTimes env w i \<noteq> []
      then Some (newTimeValidator (sort (instrumentTimes env w i))) else tv i)"
  by (induction xs arbitrary: tv) (auto simp: addValidator_def Let_def)

lemma setupTimeValidators_table:
  "timeValidators (setupTimeValidators env w) i =
     (if i \<in> set (subscribeSet w) \<and> survivingRanges env w i \<noteq> []
      then Some (newTimeValidator (survivingBoundaries env w i)) else None)"
  by (simp add: setupTimeValidators_def fold_addValidator instrumentTimes_Nil sort_instrumentTimes)

lemma set_survivingBoundaries:
  "set (survivingBoundaries env w i) =
     (\<Union>r\<in>set (survivingRanges env w i). {mapped env w (fst r), mapped env w (snd r)})"
  by (auto simp: survivingBoundaries_def)

lemma demo_mapped:
  "tradingDayOfMapTime w = ''20230224'' \<Longrightarrow> mapped demo w 32400000 = 1677229200"
  "tradingDayOfMapTime w = ''20230224'' \<Longrightarrow> mapped demo w 54000000 = 1677250800"
  "tradingDayOfMapTime w = ''20230224'' \<Longrightarrow> mapped demo w 75600000 = 1677272400"
  "tradingDayOfMapTime w = ''20230224'' \<Longrightarrow> mapped demo w 82800000 = 1677279600"
  by (simp_all add: mapped_def demo_simps demoMapTime_def msecsSinceStartOfDay_def
      QTime_ds_def NullTime_def)

lemma midday_fields:
  "tradingDayOfMapTime midday = ''20230224''" "earliestTime midday = 1677232800"
  "subscribeSet midday = [''A'', ''B'', ''C'']"
  by (simp_all add: midday_def loggedDemo_eq)

lemma midday_surviving:
  "survivingRanges demo midday ''A'' = []"
  "survivingRanges demo midday ''C'' = [(75600000, 82800000)]"
  by (simp_all add: survivingRanges_def demo_simps demoRanges_def demo_mapped midday_fields)

text \<open>
  Claim C6, as the code has it. After \<^verbatim>\<open>setupTimeValidators\<close> a subscribed instrument
  has a validator exactly when one of its ranges has a mapped start not earlier than
  \<^verbatim>\<open>earliestTime\<close>; the validator then holds, sorted, the mapped start and the
  mapped end of each such range and nothing else. A range is kept or dropped as a
  whole, by its start. Where every range ends no earlier than it starts, no kept
  boundary is earlier than \<^verbatim>\<open>earliestTime\<close>.
\<close>

theorem validator_boundaries:
  "timeValidators (setupTimeValidators env w) i =
     (if i \<in> set (subscribeSet w) \<and> survivingRanges env w i \<noteq> []
      then Some \<lparr>tradingTimePoints = survivingBoundaries env w i, latestTime = 0\<rparr> else None) \<and>
   sorted (survivingBoundaries env w i) \<and>
   set (survivingBoundaries env w i) =
     (\<Union>r\<in>set (getTradingTimeRanges env i) \<inter> {r. earliestTime w \<le> mapped env w (fst r)}.
        {mapped env w (fst r), mapped env w (snd r)}) \<and>
   length (survivingBoundaries env w i) = 2 * length (survivingRanges env w i) \<and>
   ((\<forall>r\<in>set (getTradingTimeRanges env i). mapped env w (fst r) \<le> mapped env w (snd r)) \<longrightarrow>
      (\<forall>t\<in>set (survivingBoundaries env w i). earliestTime w \<le> t))"
proof (intro conjI)
  show "timeValidators (setupTimeValidators env w) i =
     (if i \<in> set (subscribeSet w) \<and> survivingRanges env w i \<noteq> []
      then Some \<lparr>tradingTimePoints = survivingBoundaries env w i, latestTime = 0\<rparr> else None)"
    by (simp add: setupTimeValidators_table newTimeValidator_def)
  show "sorted (survivingBoundaries env w i)"
    by (simp add: survivingBoundaries_def)
  show "set (survivingBoundaries env w i) =
     (\<Union>r\<in>set (getTradingTimeRanges env i) \<inter> {r. earliestTime w \<le> mapped env w (fst r)}.
        {mapped env w (fst r), mapped env w (snd r)})"
    by (auto simp: set_survivingBoundaries survivingRanges_def)
  show "length (survivingBoundaries env w i) = 2 * length (survivingRanges env w i)"
    by (simp add: survivingBoundaries_def length_concat comp_def sum_list_triv)
  show "(\<forall>r\<in>set (getTradingTimeRanges env i). mapped env w (fst r) \<le> mapped env w (snd r)) \<longrightarrow>
      (\<forall>t\<in>set (survivingBoundaries env w i). earliestTime w \<le> t)"
    by (fastforce simp: set_survivingBoundaries survivingRanges_def)
qed

theorem validator_boundaries_witness:
  "timeValidators (setupTimeValidators demo midday) ''C'' =
     Some \<lparr>tradingTimePoints = [1677272400, 1677279600], latestTime = 0\<rparr> \<and>
   mapped demo midday 75600000 \<le> mapped demo midday 82800000 \<and>
   mapped demo midday 32400000 \<le> mapped demo midday 54000000 \<and>
   earliestTime midday \<le> 1677272400 \<and> earliestTime midday \<le> 1677279600"
  using validator_boundaries [of demo midday "''C''"]
  by (simp add: midday_surviving midday_fields survivingBoundaries_def demo_mapped
      demo_simps demoRanges_def)

text \<open>
  Claim C6 as stated fails: with the floor at 10:00 the range 09:00 to 15:00 of A is
  dropped as a whole, so the boundary 15:00, which is not earlier than the floor, is
  not retained, and A gets no validator.
\<close>

theorem later_boundary_dropped:
  "getTradingTimeRanges demo ''A'' = [(32400000, 54000000)] \<and>
   ''A'' \<in> set (subscribeSet midday) \<and>
   mapped demo midday 32400000 < earliestTime midday \<and>
   earliestTime midday \<le> mapped demo midday 54000000 \<and>
   timeValidators (setupTimeValidators demo midday) ''A'' = None"
  by (simp add: setupTimeValidators_table midday_surviving midday_fields demo_mapped
      demo_simps demoRanges_def)

subsection \<open>One tick and a run of ticks\<close>

lemma publish_outputs:
  "outputs (publish elapsed d m w) = outputs w @ (if 0 < m then [signalOf d m] else [])"
  by (simp add: publish_def Let_def signalOf_def)

lemma publish_buffers:
  "depthMarketDataListMap (publish elapsed d m w) =
     (if 0 < m \<and> saveDepthMarketData w
      then (depthMarketDataListMap w)
             (InstrumentID d \<mapsto>
                bufferOf w (InstrumentID d) @ [d\<lparr>ActionDay := stampActionDay elapsed (ActionDay d)\<rparr>])
      else depthMarketDataListMap w)"
  by (simp add: publish_def Let_def bufferOf_def)

lemma publish_validators: "timeValidators (publish elapsed d m w) = timeValidators w"
  by (simp add: publish_def Let_def)

lemma process_outputs:
  "outputs (processDepthMarketData env elapsed d w) =
     outputs w @ (if 0 < mappedTimeOf env d w then [signalOf d (mappedTimeOf env d w)] else [])"
  by (simp add: processDepthMarketData_def mappedTimeOf_def Let_def publish_outputs
      split: option.split)

lemma process_buffers:
  "depthMarketDataListMap (processDepthMarketData env elapsed d w) =
     (if 0 < mappedTimeOf env d w \<and> saveDepthMarketData w
      then (depthMarketDataListMap w)
             (InstrumentID d \<mapsto>
                bufferOf w (InstrumentID d) @ [d\<lparr>ActionDay := stampActionDay elapsed (ActionDay d)\<rparr>])
      else depthMarketDataListMap w)"
  by (simp add: processDepthMarketData_def mappedTimeOf_def Let_def publish_buffers bufferOf_def
      split: option.split)

lemma process_validators:
  "timeValidators (processDepthMarketData env elapsed d w) =
     (case timeValidators w (InstrumentID d) of
        None \<Rightarrow> timeValidators w
      | Some v \<Rightarrow>
          (timeValidators w)
            (InstrumentID d \<mapsto>
               snd (validate v
                      (mapTime env (tradingDayOfMapTime w) (hhmmssToSec env (UpdateTime d)))
                      (UpdateMillisec d))))"
  by (simp add: processDepthMarketData_def Let_def publish_validators split: option.split)

lemma process_mapTime:
  "tradingDayOfMapTime (processDepthMarketData env elapsed d w) = tradingDayOfMapTime w"
  by (simp add: processDepthMarketData_def Let_def publish_def split: option.split)

lemma emittedBy_process:
  "emittedBy w (processDepthMarketData env elapsed d w) =
     (if 0 < mappedTimeOf env d w then [signalOf d (mappedTimeOf env d w)] else [])"
  by (simp add: emittedBy_def process_outputs)

lemma processTicks_prefix:
  "\<exists>new. outputs (processTicks env ticks w) = outputs w @ new"
proof (induction ticks arbitrary: w)
  case Nil
  show ?case by (simp add: processTicks_def)
next
  case (Cons t ticks)
  from Cons.IH [of "processDepthMarketData env (fst t) (snd t) w"]
  show ?case by (auto simp: processTicks_def process_outputs)
qed

lemma emittedBy_Cons:
  "emittedBy w (processTicks env (t # ticks) w) =
     emittedBy w (processDepthMarketData env (fst t) (snd t) w) @
     emittedBy (processDepthMarketData env (fst t) (snd t) w)
       (processTicks env ticks (processDepthMarketData env (fst t) (snd t) w))"
proof -
  let ?w1 = "processDepthMarketData env (fst t) (snd t) w"
  obtain new where n: "outputs (processTicks env ticks ?w1) = outputs ?w1 @ new"
    using processTicks_prefix by blast
  have "processTicks env (t # ticks) w = processTicks env ticks ?w1"
    by (simp add: processTicks_def)
  then show ?thesis
    by (simp add: emittedBy_def n process_outputs)
qed

lemma publishedTo_append: "publishedTo i (xs @ ys) = publishedTo i xs @ publishedTo i ys"
  by (induction i xs rule: publishedTo.induct) simp_all

lemma publishedTo_signal:
  "publishedTo i [signalOf d m] = (if InstrumentID d = i then [m] else [])"
  by (simp add: signalOf_def)

lemma validate_result:
  "latestTime v \<le> latestTime (snd (validate v m ms)) \<and>
   (0 < fst (validate v m ms) \<longrightarrow>
      latestTime v < fst (validate v m ms) \<and>
      latestTime (snd (validate v m ms)) = fst (validate v m ms)) \<and>
   tradingTimePoints (snd (validate v m ms)) = tradingTimePoints v"
  by (simp add: validate_def Let_def)

lemma validate_again:
  "fst (validate (snd (validate v m ms)) m ms) = 0 \<and>
   snd (validate (snd (validate v m ms)) m ms) = snd (validate v m ms)"
  by (simp add: validate_def Let_def)

lemma published_positive:
  "\<forall>ts\<in>set (publishedTo i (emittedBy w (processTicks env ticks w))). 0 < ts"
proof (induction ticks arbitrary: w)
  case Nil
  show ?case by (simp add: processTicks_def emittedBy_def)
next
  case (Cons t ticks)
  show ?case
    unfolding emittedBy_Cons publishedTo_append
    using Cons.IH [of "processDepthMarketData env (fst t) (snd t) w"]
    by (auto simp: emittedBy_process publishedTo_signal split: if_splits)
qed

lemma process_validators_other:
  "InstrumentID d \<noteq> i \<Longrightarrow>
   timeValidators (processDepthMarketData env elapsed d w) i = timeValidators w i"
  by (simp add: process_validators split: option.split)

lemma process_validators_None:
  "timeValidators w i = None \<Longrightarrow>
   timeValidators (processDepthMarketData env elapsed d w) i = None"
  by (cases "InstrumentID d = i") (simp_all add: process_validators split: option.split)

lemma published_None:
  "timeValidators w i = None \<Longrightarrow>
   publishedTo i (emittedBy w (processDepthMarketData env elapsed d w)) = []"
  by (simp add: emittedBy_process publishedTo_signal mappedTimeOf_def)

lemma published_step:
  assumes "timeValidators w i = Some v"
  shows "\<exists>v1. timeValidators (processDepthMarketData env elapsed d w) i = Some v1 \<and>
           latestTime v \<le> latestTime v1 \<and>
           (\<forall>ts\<in>set (publishedTo i (emittedBy w (processDepthMarketData env elapsed d w))).
              latestTime v < ts \<and> ts \<le> latestTime v1) \<and>
           length (publishedTo i (emittedBy w (processDepthMarketData env elapsed d w))) \<le> 1"
proof (cases "InstrumentID d = i")
  case False
  then show ?thesis
    using assms by (simp add: process_validators_other emittedBy_process publishedTo_signal)
next
  case True
  let ?m = "mapTime env (tradingDayOfMapTime w) (hhmmssToSec env (UpdateTime d))"
  have r: "mappedTimeOf env d w = fst (validate v ?m (UpdateMillisec d))"
    using assms True by (simp add: mappedTimeOf_def)
  have tv: "timeValidators (processDepthMarketData env elapsed d w) i =
              Some (snd (validate v ?m (UpdateMillisec d)))"
    using assms True by (simp add: process_validators)
  from validate_result [of v ?m "UpdateMillisec d"] show ?thesis
    by (simp add: tv emittedBy_process publishedTo_signal True r)
qed

lemma published_increasing:
  "sorted_wrt (<) (publishedTo i (emittedBy w (processTicks env ticks w))) \<and>
   (timeValidators w i = None \<longrightarrow>
      publishedTo i (emittedBy w (processTicks env ticks w)) = []) \<and>
   (\<forall>v. timeValidators w i = Some v \<longrightarrow>
      (\<forall>ts\<in>set (publishedTo i (emittedBy w (processTicks env ticks w))). latestTime v < ts))"
proof (induction ticks arbitrary: w)
  case Nil
  show ?case by (simp add: processTicks_def emittedBy_def)
next
  case (Cons t ticks)
  let ?w1 = "processDepthMarketData env (fst t) (snd t) w"
  let ?a = "publishedTo i (emittedBy w ?w1)"
  let ?b = "publishedTo i (emittedBy ?w1 (processTicks env ticks ?w1))"
  have split: "publishedTo i (emittedBy w (processTicks env (t # ticks) w)) = ?a @ ?b"
    by (simp only: emittedBy_Cons publishedTo_append)
  note IH = Cons.IH [of ?w1]
  show ?case
  proof (cases "timeValidators w i")
    case None
    then have "timeValidators ?w1 i = None" by (rule process_validators_None)
    with IH have "?b = []" by simp
    moreover from None have "?a = []" by (rule published_None)
    ultimately show ?thesis by (simp add: split None)
  next
    case (Some v)
    from published_step [OF Some, of env "fst t" "snd t"]
    obtain v1 where v1: "timeValidators ?w1 i = Some v1" "latestTime v \<le> latestTime v1"
      and a: "\<forall>ts\<in>set ?a. latestTime v < ts \<and> ts \<le> latestTime v1"
      and la: "length ?a \<le> 1"
      by blast
    from IH v1 have b: "sorted_wrt (<) ?b" "\<forall>ts\<in>set ?b. latestTime v1 < ts"
      by simp_all
    from la have sa: "sorted_wrt (<) ?a"
      by (cases ?a) simp_all
    from a b have cross: "\<forall>x\<in>set ?a. \<forall>y\<in>set ?b. x < y" by fastforce
    from a b v1 have all: "\<forall>ts\<in>set (?a @ ?b). latestTime v < ts" by fastforce
    from sa b cross have "sorted_wrt (<) (?a @ ?b)" by (simp add: sorted_wrt_append)
    with all show ?thesis by (simp only: split Some) simp
  qed
qed

lemma process_twice:
  "emittedBy (processDepthMarketData env elapsed d w)
     (processDepthMarketData env elapsed' d (processDepthMarketData env elapsed d w)) = [] \<and>
   depthMarketDataListMap
     (processDepthMarketData env elapsed' d (processDepthMarketData env elapsed d w)) =
   depthMarketDataListMap (processDepthMarketData env elapsed d w)"
proof -
  let ?w1 = "processDepthMarketData env elapsed d w"
  have "mappedTimeOf env d ?w1 = 0"
    by (simp add: mappedTimeOf_def process_validators process_mapTime validate_again
        split: option.split)
  then show ?thesis by (simp add: emittedBy_process process_buffers)
qed

lemma loggedDemo_A:
  "timeValidators loggedDemo ''A'' =
     Some \<lparr>tradingTimePoints = [1677229200, 1677250800], latestTime = 0\<rparr>"
  "tradingDayOfMapTime loggedDemo = ''20230224''"
  by (simp_all add: loggedDemo_eq newTimeValidator_def)

lemma demo_tick_time:
  "mapTime demo ''20230224'' (hhmmssToSec demo ''10:00:00'') = 1677232800"
  by (simp add: demo_simps demoMapTime_def demoHhmmssToSec_def digitValue_def)

lemma run_demo:
  "publishedTo ''A'' (emittedBy loggedDemo
      (processTicks demo [(77, tickA), (78, tickA), (79, tickA600)] loggedDemo)) =
     [1677232800500, 1677232800600]"
  by (simp add: processTicks_def emittedBy_def process_outputs process_validators
      process_mapTime mappedTimeOf_def loggedDemo_A tickA_def tickA600_def demo_tick_time
      validate_def Let_def signalOf_def)

lemma tickA_fields:
  "InstrumentID tickA = ''A''" "UpdateTime tickA = ''10:00:00''" "UpdateMillisec tickA = 500"
  "LastPrice tickA = 0x40A7700000000000" "Volume tickA = 10"
  "AskPrice1 tickA = 0x40A7720000000000" "AskVolume1 tickA = 3"
  "BidPrice1 tickA = 0x40A76E0000000000" "BidVolume1 tickA = 4"
  "ActionDay tickA = [50, 48, 50, 51, 48, 50, 50, 52, 0]"
  by (simp_all add: tickA_def)

lemma quiet_result:
  "customEvent demo ''20230224'' 0 RSP_USER_LOGIN (fresh\<lparr>saveDepthMarketData := False\<rparr>) =
   Inr \<lparr>brokerID = ''9999'', userID = ''watcher'', password = ''secret'', nRequestID = 0,
      saveDepthMarketData = False, subscribeSet = [''A'', ''B'', ''C''],
      loggedIn = True, currentTradingDay = ''20230224'', tradingDayOfMapTime = ''20230224'',
      earliestTime = 0,
      timeValidators =
        [''A'' \<mapsto> newTimeValidator [1677229200, 1677250800],
         ''B'' \<mapsto> newTimeValidator [1677229200, 1677250800],
         ''C'' \<mapsto> newTimeValidator [1677229200, 1677250800, 1677272400, 1677279600]],
      instrumentsToProcess = [],
      multiTimer = None,
      depthMarketDataListMap = Map.empty,
      outputs = [TradingDayChanged ''20230224'', SubscribeMarketData [''A'', ''B'', ''C'']]\<rparr>"
  unfolding customEvent.simps
  by (simp add: rspUserLogin_def userLoggedIn_def Let_def subscribe_def copySlots_demo
      setupTimeValidators_def addValidator_def demo_instrumentTimes fresh_def)

lemma quiet_eq:
  "quiet =
     \<lparr>brokerID = ''9999'', userID = ''watcher'', password = ''secret'', nRequestID = 0,
      saveDepthMarketData = False, subscribeSet = [''A'', ''B'', ''C''],
      loggedIn = True, currentTradingDay = ''20230224'', tradingDayOfMapTime = ''20230224'',
      earliestTime = 0,
      timeValidators =
        [''A'' \<mapsto> newTimeValidator [1677229200, 1677250800],
         ''B'' \<mapsto> newTimeValidator [1677229200, 1677250800],
         ''C'' \<mapsto> newTimeValidator [1677229200, 1677250800, 1677272400, 1677279600]],
      instrumentsToProcess = [],
      multiTimer = None,
      depthMarketDataListMap = Map.empty,
      outputs = [TradingDayChanged ''20230224'', SubscribeMarketData [''A'', ''B'', ''C'']]\<rparr>"
  unfolding quiet_def quiet_result by simp

lemma quiet_reached:
  "customEvent demo ''20230224'' 0 RSP_USER_LOGIN (fresh\<lparr>saveDepthMarketData := False\<rparr>) =
   Inr quiet"
  unfolding quiet_def quiet_result by simp

lemma quiet_A:
  "timeValidators quiet ''A'' =
     Some \<lparr>tradingTimePoints = [1677229200, 1677250800], latestTime = 0\<rparr>"
  "tradingDayOfMapTime quiet = ''20230224''" "\<not> saveDepthMarketData quiet"
  "depthMarketDataListMap quiet ''A'' = None"
  by (simp_all add: quiet_eq newTimeValidator_def)

lemma demo_mappedTimeOf:
  "timeValidators w ''A'' =
     Some \<lparr>tradingTimePoints = [1677229200, 1677250800], latestTime = 0\<rparr> \<Longrightarrow>
   tradingDayOfMapTime w = ''20230224'' \<Longrightarrow>
   mappedTimeOf demo tickA w = 1677232800500"
  by (simp add: mappedTimeOf_def tickA_def demo_tick_time validate_def Let_def)

subsection \<open>Publication\<close>

text \<open>
  Claim C10, as the code has it. A tick is published exactly when the value of
  \<^verbatim>\<open>mappedTime\<close> is positive, which needs a validator for its instrument and a
  positive result of \<^verbatim>\<open>validate\<close>; the signal carries that value. The tick is
  appended to the buffer of its instrument exactly when it is published and the
  watcher saves data. Otherwise nothing is sent and no buffer changes. Every final
  timestamp published in a run of ticks is positive.
\<close>

theorem publish_iff_validated:
  "outputs (processDepthMarketData env elapsed d w) =
     outputs w @
       (if 0 < mappedTimeOf env d w
        then [NewMarketData (InstrumentID d) (mappedTimeOf env d w) (LastPrice d) (Volume d)
                (AskPrice1 d) (AskVolume1 d) (BidPrice1 d) (BidVolume1 d)]
        else []) \<and>
   depthMarketDataListMap (processDepthMarketData env elapsed d w) =
     (if 0 < mappedTimeOf env d w \<and> saveDepthMarketData w
      then (depthMarketDataListMap w)
             (InstrumentID d \<mapsto>
                bufferOf w (InstrumentID d) @
                  [d\<lparr>ActionDay := stampActionDay elapsed (ActionDay d)\<rparr>])
      else depthMarketDataListMap w) \<and>
   (timeValidators w (InstrumentID d) = None \<longrightarrow> mappedTimeOf env d w = 0) \<and>
   (\<forall>v. timeValidators w (InstrumentID d) = Some v \<longrightarrow>
      mappedTimeOf env d w =
        fst (validate v (mapTime env (tradingDayOfMapTime w) (hhmmssToSec env (UpdateTime d)))
               (UpdateMillisec d))) \<and>
   (\<forall>ts\<in>set (publishedTo i (emittedBy w (processTicks env ticks w))). 0 < ts)"
  using published_positive [of i w env ticks]
  by (simp add: process_outputs process_buffers signalOf_def mappedTimeOf_def)

theorem publish_iff_validated_witness:
  "timeValidators loggedDemo (InstrumentID tickA) =
     Some \<lparr>tradingTimePoints = [1677229200, 1677250800], latestTime = 0\<rparr> \<and>
   mappedTimeOf demo tickA loggedDemo = 1677232800500 \<and>
   saveDepthMarketData loggedDemo \<and>
   outputs (processDepthMarketData demo 77 tickA loggedDemo) = outputs loggedDemo @ [publishedA] \<and>
   depthMarketDataListMap (processDepthMarketData demo 77 tickA loggedDemo) =
     (depthMarketDataListMap loggedDemo)(''A'' \<mapsto> [stampedA]) \<and>
   timeValidators loggedDemo (InstrumentID tickD) = None \<and>
   mappedTimeOf demo tickD loggedDemo = 0 \<and>
   outputs (processDepthMarketData demo 77 tickD loggedDemo) = outputs loggedDemo \<and>
   depthMarketDataListMap (processDepthMarketData demo 77 tickD loggedDemo) =
     depthMarketDataListMap loggedDemo"
proof -
  note a = publish_iff_validated [of demo 77 tickA loggedDemo "''A''" "[]"]
  note d = publish_iff_validated [of demo 77 tickD loggedDemo "''A''" "[]"]
  have n: "timeValidators loggedDemo (InstrumentID tickD) = None"
    by (simp add: tickD_def tickA_def loggedDemo_eq)
  with d have m: "mappedTimeOf demo tickD loggedDemo = 0" by blast
  have s: "saveDepthMarketData loggedDemo" "depthMarketDataListMap loggedDemo = Map.empty"
    by (simp_all add: loggedDemo_eq)
  have ma: "mappedTimeOf demo tickA loggedDemo = 1677232800500"
    by (simp add: demo_mappedTimeOf loggedDemo_A)
  from a have "outputs (processDepthMarketData demo 77 tickA loggedDemo) =
      outputs loggedDemo @ [publishedA]"
    by (simp add: ma publishedA_def tickA_fields)
  moreover from a have "depthMarketDataListMap (processDepthMarketData demo 77 tickA loggedDemo) =
     (depthMarketDataListMap loggedDemo)(''A'' \<mapsto> [stampedA])"
    by (simp add: ma s bufferOf_def stampedA_def tickA_fields stampActionDay_def)
  moreover from d have "outputs (processDepthMarketData demo 77 tickD loggedDemo) = outputs loggedDemo"
    by (simp add: m)
  moreover from d have "depthMarketDataListMap (processDepthMarketData demo 77 tickD loggedDemo) =
     depthMarketDataListMap loggedDemo"
    by (simp add: m)
  ultimately show ?thesis
    using n m ma s by (simp add: loggedDemo_A tickA_fields)
qed

text \<open>
  Claim C10 as stated fails for a watcher that does not save data: the tick of A is
  published, and the buffer of A stays as it was.
\<close>

theorem published_without_buffering:
  "timeValidators quiet (InstrumentID tickA) =
     Some \<lparr>tradingTimePoints = [1677229200, 1677250800], latestTime = 0\<rparr> \<and>
   fst (validate \<lparr>tradingTimePoints = [1677229200, 1677250800], latestTime = 0\<rparr>
          (mapTime demo (tradingDayOfMapTime quiet) (hhmmssToSec demo (UpdateTime tickA)))
          (UpdateMillisec tickA)) = 1677232800500 \<and>
   emittedBy quiet (processDepthMarketData demo 77 tickA quiet) = [publishedA] \<and>
   \<not> saveDepthMarketData quiet \<and>
   depthMarketDataListMap quiet ''A'' = None \<and>
   depthMarketDataListMap (processDepthMarketData demo 77 tickA quiet) ''A'' = None"
  by (simp add: emittedBy_process process_buffers demo_mappedTimeOf quiet_A tickA_fields
      demo_tick_time validate_def Let_def signalOf_def publishedA_def)

subsection \<open>What the operations leave unchanged\<close>

lemma validators_cong:
  assumes "subscribeSet a = subscribeSet b" "tradingDayOfMapTime a = tradingDayOfMapTime b"
    "earliestTime a = earliestTime b"
  shows "timeValidators (setupTimeValidators env a) = timeValidators (setupTimeValidators env b)"
proof -
  have r: "rangeTimes env a = rangeTimes env b"
    using assms by (simp add: rangeTimes_def Let_def fun_eq_iff)
  have "addValidator env a = addValidator env b"
    by (intro ext) (simp add: addValidator_def instrumentTimes_def r)
  with assms(1) show ?thesis by (simp add: setupTimeValidators_def)
qed

lemma setupTimers_frame:
  "subscribeSet (setupTimers env w) = subscribeSet w"
  "loggedIn (setupTimers env w) = loggedIn w"
  "saveDepthMarketData (setupTimers env w) = saveDepthMarketData w"
  "tradingDayOfMapTime (setupTimers env w) = tradingDayOfMapTime w"
  "earliestTime (setupTimers env w) = earliestTime w"
  "currentTradingDay (setupTimers env w) = currentTradingDay w"
  "timeValidators (setupTimers env w) = timeValidators w"
  "outputs (setupTimers env w) = outputs w"
  "depthMarketDataListMap (setupTimers env w) = depthMarketDataListMap w"
  by (simp_all add: setupTimers_def Let_def)

lemma setupTimeValidators_frame:
  "subscribeSet (setupTimeValidators env w) = subscribeSet w"
  "loggedIn (setupTimeValidators env w) = loggedIn w"
  "saveDepthMarketData (setupTimeValidators env w) = saveDepthMarketData w"
  "tradingDayOfMapTime (setupTimeValidators env w) = tradingDayOfMapTime w"
  "earliestTime (setupTimeValidators env w) = earliestTime w"
  "currentTradingDay (setupTimeValidators env w) = currentTradingDay w"
  "instrumentsToProcess (setupTimeValidators env w) = instrumentsToProcess w"
  "multiTimer (setupTimeValidators env w) = multiTimer w"
  "outputs (setupTimeValidators env w) = outputs w"
  "depthMarketDataListMap (setupTimeValidators env w) = depthMarketDataListMap w"
  by (simp_all add: setupTimeValidators_def)

lemma userLoggedIn_day_change:
  assumes "currentTradingDay w \<noteq> tradingDay"
  shows "tradingDayOfMapTime (userLoggedIn env tradingDay w) = tradingDay"
    and "currentTradingDay (userLoggedIn env tradingDay w) = tradingDay"
    and "loggedIn (userLoggedIn env tradingDay w)"
    and "subscribeSet (userLoggedIn env tradingDay w) = subscribeSet w"
    and "earliestTime (userLoggedIn env tradingDay w) = earliestTime w"
    and "saveDepthMarketData (userLoggedIn env tradingDay w) = saveDepthMarketData w"
    and "instrumentsToProcess (userLoggedIn env tradingDay w) = instrumentsToProcess w"
    and "multiTimer (userLoggedIn env tradingDay w) = multiTimer w"
    and "outputs (userLoggedIn env tradingDay w) = outputs w @ [TradingDayChanged tradingDay]"
    and "timeValidators (userLoggedIn env tradingDay w) =
           timeValidators (setupTimeValidators env (w\<lparr>tradingDayOfMapTime := tradingDay\<rparr>))"
proof -
  let ?wb = "w\<lparr>loggedIn := True, outputs := outputs w @ [TradingDayChanged tradingDay],
               tradingDayOfMapTime := tradingDay\<rparr>"
  have r: "userLoggedIn env tradingDay w =
             (setupTimeValidators env ?wb)\<lparr>currentTradingDay := tradingDay\<rparr>"
    using assms by (simp add: userLoggedIn_def Let_def)
  have v: "timeValidators (setupTimeValidators env ?wb) =
             timeValidators (setupTimeValidators env (w\<lparr>tradingDayOfMapTime := tradingDay\<rparr>))"
    by (rule validators_cong) simp_all
  show "tradingDayOfMapTime (userLoggedIn env tradingDay w) = tradingDay"
    and "currentTradingDay (userLoggedIn env tradingDay w) = tradingDay"
    and "loggedIn (userLoggedIn env tradingDay w)"
    and "subscribeSet (userLoggedIn env tradingDay w) = subscribeSet w"
    and "earliestTime (userLoggedIn env tradingDay w) = earliestTime w"
    and "saveDepthMarketData (userLoggedIn env tradingDay w) = saveDepthMarketData w"
    and "instrumentsToProcess (userLoggedIn env tradingDay w) = instrumentsToProcess w"
    and "multiTimer (userLoggedIn env tradingDay w) = multiTimer w"
    and "outputs (userLoggedIn env tradingDay w) = outputs w @ [TradingDayChanged tradingDay]"
    by (simp_all add: r setupTimeValidators_frame)
  show "timeValidators (userLoggedIn env tradingDay w) =
           timeValidators (setupTimeValidators env (w\<lparr>tradingDayOfMapTime := tradingDay\<rparr>))"
    by (simp add: r v)
qed

lemma userLoggedIn_same_day:
  "currentTradingDay w = tradingDay \<Longrightarrow> userLoggedIn env tradingDay w = w\<lparr>loggedIn := True\<rparr>"
  by (simp add: userLoggedIn_def Let_def)

lemma subscribe_result:
  "copySlots (subscribeSet w) = Inr pp \<Longrightarrow>
   subscribe w = Inr (w\<lparr>outputs := outputs w @ [SubscribeMarketData pp]\<rparr>)"
  by (simp add: subscribe_def)

lemma subscribe_Inr:
  "subscribe w = Inr w' \<Longrightarrow> \<exists>pp. w' = w\<lparr>outputs := outputs w @ [SubscribeMarketData pp]\<rparr>"
  by (auto simp: subscribe_def split: sum.splits)

lemma instrumentsSubscribed_frame:
  "subscribeSet (instrumentsSubscribed env pp instruments updateIni w) =
     fold QSet_insert instruments (subscribeSet w)"
  "tradingDayOfMapTime (instrumentsSubscribed env pp instruments updateIni w) =
     tradingDayOfMapTime w"
  "earliestTime (instrumentsSubscribed env pp instruments updateIni w) = earliestTime w"
  "currentTradingDay (instrumentsSubscribed env pp instruments updateIni w) = currentTradingDay w"
  "loggedIn (instrumentsSubscribed env pp instruments updateIni w) = loggedIn w"
  "saveDepthMarketData (instrumentsSubscribed env pp instruments updateIni w) =
     saveDepthMarketData w"
  "depthMarketDataListMap (instrumentsSubscribed env pp instruments updateIni w) =
     depthMarketDataListMap w"
  by (simp_all add: instrumentsSubscribed_def Let_def setupTimers_frame setupTimeValidators_frame)

lemma instrumentsSubscribed_outputs:
  "outputs (instrumentsSubscribed env pp instruments updateIni w) =
     outputs w @ (if loggedIn w then [SubscribeMarketData pp] else []) @
       (if updateIni then [UpdateIni instruments] else [])"
  by (simp add: instrumentsSubscribed_def Let_def setupTimers_frame setupTimeValidators_frame)

lemma instrumentsSubscribed_validators:
  "timeValidators (instrumentsSubscribed env pp instruments updateIni w) =
     (if loggedIn w
      then timeValidators (setupTimeValidators env
             (w\<lparr>subscribeSet := fold QSet_insert instruments (subscribeSet w)\<rparr>))
      else timeValidators w)"
proof (cases "loggedIn w")
  case False
  then show ?thesis
    by (simp add: instrumentsSubscribed_def Let_def setupTimers_frame)
next
  case True
  let ?n = "w\<lparr>subscribeSet := fold QSet_insert instruments (subscribeSet w)\<rparr>"
  let ?w' = "instrumentsSubscribed env pp instruments updateIni w"
  obtain x where x: "timeValidators ?w' = timeValidators (setupTimeValidators env x)"
    and "subscribeSet x = subscribeSet ?n" "tradingDayOfMapTime x = tradingDayOfMapTime ?n"
    "earliestTime x = earliestTime ?n"
    using True
    by (cases "saveDepthMarketData w"; cases updateIni)
       (simp_all add: instrumentsSubscribed_def Let_def setupTimers_frame setupTimeValidators_frame)
  then have "timeValidators (setupTimeValidators env x) =
               timeValidators (setupTimeValidators env ?n)"
    by (intro validators_cong)
  with x True show ?thesis by simp
qed

lemma instrumentsSubscribed_timers:
  "instrumentsToProcess (instrumentsSubscribed env pp instruments updateIni w) =
     (if saveDepthMarketData w
      then instrumentsToProcess (setupTimers env
             (w\<lparr>subscribeSet := fold QSet_insert instruments (subscribeSet w)\<rparr>))
      else instrumentsToProcess w)"
  "multiTimer (instrumentsSubscribed env pp instruments updateIni w) =
     (if saveDepthMarketData w
      then multiTimer (setupTimers env
             (w\<lparr>subscribeSet := fold QSet_insert instruments (subscribeSet w)\<rparr>))
      else multiTimer w)"
  by (simp_all add: instrumentsSubscribed_def Let_def setupTimeValidators_frame setupTimers_def)

subsection \<open>Final timestamps increase\<close>

lemma publishedTo_DataFile: "publishedTo i (map (\<lambda>j. DataFile j (f j)) xs) = []"
  by (induction xs) simp_all

lemma publishedTo_filesFor: "publishedTo i (filesFor g w) = []"
  by (simp add: filesFor_def publishedTo_DataFile)

lemma timesUp_quiet:
  assumes "timesUp env today currentTime index w = Inr w1"
  shows "timeValidators w1 = timeValidators w \<and>
         (\<exists>new. outputs w1 = outputs w @ new \<and> publishedTo i new = [])"
proof -
  from assms have "w1 = w\<lparr>depthMarketDataListMap := Map.empty\<rparr> \<or>
      w1 = flushed (instrumentsToProcess w ! nat index) w"
    by (auto simp: timesUp_def saveInstruments_def Let_def fold_flushInstrument
        split: if_splits)
  then show ?thesis
    by (auto simp: flushed_def publishedTo_filesFor)
qed

lemma login_quiet:
  assumes "login env w = Inr w1"
  shows "timeValidators w1 = timeValidators w \<and>
         (\<exists>new. outputs w1 = outputs w @ new \<and> publishedTo i new = [])"
  using assms by (auto simp: login_def split: if_splits)

lemma rspUserLogin_quiet:
  assumes "currentTradingDay w = tradingDay" "rspUserLogin env tradingDay w = Inr w1"
  shows "timeValidators w1 = timeValidators w \<and>
         (\<exists>new. outputs w1 = outputs w @ new \<and> publishedTo i new = [])"
proof -
  from assms have "subscribe (w\<lparr>loggedIn := True\<rparr>) = Inr w1"
    by (simp add: rspUserLogin_def userLoggedIn_same_day)
  then obtain pp where
    "w1 = w\<lparr>loggedIn := True, outputs := outputs w @ [SubscribeMarketData pp]\<rparr>"
    by (auto dest: subscribe_Inr)
  then show ?thesis by simp
qed

lemma subscribeInstruments_quiet:
  assumes "\<not> loggedIn w" "subscribeInstruments env instruments updateIni w = Inr w1"
  shows "timeValidators w1 = timeValidators w \<and>
         (\<exists>new. outputs w1 = outputs w @ new \<and> publishedTo i new = [])"
proof -
  from assms(2) obtain pp where "w1 = instrumentsSubscribed env pp instruments updateIni w"
    by (auto simp: subscribeInstruments_def split: sum.splits)
  with assms(1) show ?thesis
    by (simp add: instrumentsSubscribed_validators instrumentsSubscribed_outputs)
qed

lemma perform_quiet:
  assumes "\<not> rebuilds x w" "perform env x w = Inr w1"
    "\<forall>tradingDay elapsed d. x \<noteq> Event tradingDay elapsed (DEPTH_MARKET_DATA d)"
  shows "timeValidators w1 = timeValidators w \<and>
         (\<exists>new. outputs w1 = outputs w @ new \<and> publishedTo i new = [])"
proof (cases x)
  case (Event tradingDay elapsed e)
  show ?thesis
  proof (cases e)
    case FRONT_CONNECTED
    with Event assms(2) show ?thesis by (simp add: login_quiet)
  next
    case RSP_USER_LOGIN
    with Event assms(1,2) show ?thesis by (simp add: rspUserLogin_quiet)
  next
    case (DEPTH_MARKET_DATA d)
    with Event assms(3) show ?thesis by simp
  qed (use Event assms(2) in auto)
next
  case (Firing today currentTime index)
  with assms(2) show ?thesis by (simp add: timesUp_quiet)
next
  case (Subscription instruments updateIni)
  with assms(1,2) show ?thesis by (simp add: subscribeInstruments_quiet)
next
  case (Weekend today)
  with assms(2) show ?thesis by (auto simp: setWeekend_def)
qed

lemma perform_prefix:
  assumes "\<not> rebuilds x w" "perform env x w = Inr w1"
  shows "\<exists>new. outputs w1 = outputs w @ new"
proof (cases "\<exists>tradingDay elapsed d. x = Event tradingDay elapsed (DEPTH_MARKET_DATA d)")
  case True
  with assms(2) show ?thesis by (auto simp: process_outputs)
next
  case False
  with perform_quiet [OF assms, of undefined] show ?thesis by blast
qed

lemma perform_None:
  assumes "\<not> rebuilds x w" "perform env x w = Inr w1" "timeValidators w i = None"
  shows "timeValidators w1 i = None \<and> publishedTo i (emittedBy w w1) = []"
proof (cases "\<exists>tradingDay elapsed d. x = Event tradingDay elapsed (DEPTH_MARKET_DATA d)")
  case True
  with assms(2,3) show ?thesis by (auto simp: process_validators_None published_None)
next
  case False
  with perform_quiet [OF assms(1,2), of i] assms(3) show ?thesis
    by (auto simp: emittedBy_def)
qed

lemma perform_Some:
  assumes "\<not> rebuilds x w" "perform env x w = Inr w1" "timeValidators w i = Some v"
  shows "\<exists>v1. timeValidators w1 i = Some v1 \<and> latestTime v \<le> latestTime v1 \<and>
           (\<forall>ts\<in>set (publishedTo i (emittedBy w w1)). latestTime v < ts \<and> ts \<le> latestTime v1) \<and>
           length (publishedTo i (emittedBy w w1)) \<le> 1"
proof (cases "\<exists>tradingDay elapsed d. x = Event tradingDay elapsed (DEPTH_MARKET_DATA d)")
  case True
  then obtain tradingDay elapsed d where "x = Event tradingDay elapsed (DEPTH_MARKET_DATA d)"
    by blast
  with assms(2) have "w1 = processDepthMarketData env elapsed d w" by simp
  with published_step [OF assms(3), of env elapsed d] show ?thesis by simp
next
  case False
  with perform_quiet [OF assms(1,2), of i] assms(3) show ?thesis
    by (auto simp: emittedBy_def)
qed

lemma performAll_prefix:
  "steady env xs w \<Longrightarrow> performAll env xs w = Inr w' \<Longrightarrow> \<exists>new. outputs w' = outputs w @ new"
proof (induction xs arbitrary: w)
  case Nil
  then show ?case by simp
next
  case (Cons x xs)
  from Cons.prems obtain w1 where w1: "\<not> rebuilds x w" "perform env x w = Inr w1"
    "steady env xs w1" "performAll env xs w1 = Inr w'"
    by (auto split: if_splits sum.splits)
  from perform_prefix [OF w1(1,2)] Cons.IH [OF w1(3,4)] show ?case by auto
qed

lemma emittedBy_trans:
  assumes "\<exists>new. outputs w1 = outputs w @ new" "\<exists>new. outputs w' = outputs w1 @ new"
  shows "emittedBy w w' = emittedBy w w1 @ emittedBy w1 w'"
  using assms by (auto simp: emittedBy_def)

lemma steady_increasing:
  "steady env xs w \<Longrightarrow> performAll env xs w = Inr w' \<Longrightarrow>
   sorted_wrt (<) (publishedTo i (emittedBy w w')) \<and>
   (timeValidators w i = None \<longrightarrow> publishedTo i (emittedBy w w') = []) \<and>
   (\<forall>v. timeValidators w i = Some v \<longrightarrow>
      (\<forall>ts\<in>set (publishedTo i (emittedBy w w')). latestTime v < ts))"
proof (induction xs arbitrary: w)
  case Nil
  then show ?case by (simp add: emittedBy_def)
next
  case (Cons x xs)
  from Cons.prems obtain w1 where w1: "\<not> rebuilds x w" "perform env x w = Inr w1"
    "steady env xs w1" "performAll env xs w1 = Inr w'"
    by (auto split: if_splits sum.splits)
  let ?a = "publishedTo i (emittedBy w w1)"
  let ?b = "publishedTo i (emittedBy w1 w')"
  have split: "publishedTo i (emittedBy w w') = ?a @ ?b"
    using emittedBy_trans [OF perform_prefix [OF w1(1,2)] performAll_prefix [OF w1(3,4)]]
    by (simp only: publishedTo_append)
  note IH = Cons.IH [OF w1(3,4)]
  show ?case
  proof (cases "timeValidators w i")
    case None
    from perform_None [OF w1(1,2) None] IH have "?a = []" "?b = []" by simp_all
    then show ?thesis by (simp add: split None)
  next
    case (Some v)
    from perform_Some [OF w1(1,2) Some]
    obtain v1 where v1: "timeValidators w1 i = Some v1" "latestTime v \<le> latestTime v1"
      and a: "\<forall>ts\<in>set ?a. latestTime v < ts \<and> ts \<le> latestTime v1"
      and la: "length ?a \<le> 1"
      by blast
    from IH v1 have b: "sorted_wrt (<) ?b" "\<forall>ts\<in>set ?b. latestTime v1 < ts"
      by simp_all
    from la have sa: "sorted_wrt (<) ?a"
      by (cases ?a) simp_all
    from a b have cross: "\<forall>x\<in>set ?a. \<forall>y\<in>set ?b. x < y" by fastforce
    from a b v1 have all: "\<forall>ts\<in>set (?a @ ?b). latestTime v < ts" by fastforce
    from sa b cross have "sorted_wrt (<) (?a @ ?b)" by (simp add: sorted_wrt_append)
    with all show ?thesis by (simp only: split Some) simp
  qed
qed

lemma steadyRun_steady: "steady demo steadyRun loggedDemo"
  by code_simp

lemma steadyRun_published:
  "map_sum id (\<lambda>w. publishedTo ''A'' (emittedBy loggedDemo w))
     (performAll demo steadyRun loggedDemo) = Inr [1677232800500, 1677232800600]"
  by code_simp

text \<open>
  Claim C1, as the code has it. Over any sequence of operations that runs without
  failure and in which no operation rebuilds the validator table, the final timestamps
  published for an instrument are strictly increasing, and each is greater than the
  last timestamp the instrument's validator had accepted before the sequence; a run of
  ticks alone is such a sequence. A tick sent again right after itself is never
  published the second time; the first time it is published when it lies in a session
  and its final timestamp is positive and greater than the last accepted one.
\<close>

theorem published_strictly_increasing:
  "(steady env xs w \<and> performAll env xs w = Inr w' \<longrightarrow>
      sorted_wrt (<) (publishedTo i (emittedBy w w')) \<and>
      (\<forall>v. timeValidators w i = Some v \<longrightarrow>
         (\<forall>ts\<in>set (publishedTo i (emittedBy w w')). latestTime v < ts))) \<and>
   sorted_wrt (<) (publishedTo i (emittedBy w (processTicks env ticks w))) \<and>
   (\<forall>v. timeValidators w i = Some v \<longrightarrow>
      (\<forall>ts\<in>set (publishedTo i (emittedBy w (processTicks env ticks w))). latestTime v < ts)) \<and>
   emittedBy (processDepthMarketData env elapsed d w)
     (processDepthMarketData env elapsed' d (processDepthMarketData env elapsed d w)) = [] \<and>
   (\<forall>v. timeValidators w (InstrumentID d) = Some v \<and>
        insideSession (mapTime env (tradingDayOfMapTime w) (hhmmssToSec env (UpdateTime d)))
          (tradingTimePoints v) \<and>
        latestTime v <
          mapTime env (tradingDayOfMapTime w) (hhmmssToSec env (UpdateTime d)) * 1000 +
            UpdateMillisec d \<and>
        0 < mapTime env (tradingDayOfMapTime w) (hhmmssToSec env (UpdateTime d)) * 1000 +
            UpdateMillisec d \<longrightarrow>
      publishedTo (InstrumentID d) (emittedBy w (processDepthMarketData env elapsed d w)) =
        [mapTime env (tradingDayOfMapTime w) (hhmmssToSec env (UpdateTime d)) * 1000 +
           UpdateMillisec d])"
proof (intro conjI)
  show "steady env xs w \<and> performAll env xs w = Inr w' \<longrightarrow>
      sorted_wrt (<) (publishedTo i (emittedBy w w')) \<and>
      (\<forall>v. timeValidators w i = Some v \<longrightarrow>
         (\<forall>ts\<in>set (publishedTo i (emittedBy w w')). latestTime v < ts))"
    using steady_increasing [of env xs w w' i] by blast
  show "sorted_wrt (<) (publishedTo i (emittedBy w (processTicks env ticks w)))"
    using published_increasing [of i w env ticks] by blast
  show "\<forall>v. timeValidators w i = Some v \<longrightarrow>
      (\<forall>ts\<in>set (publishedTo i (emittedBy w (processTicks env ticks w))). latestTime v < ts)"
    using published_increasing [of i w env ticks] by blast
  show "emittedBy (processDepthMarketData env elapsed d w)
     (processDepthMarketData env elapsed' d (processDepthMarketData env elapsed d w)) = []"
    using process_twice [of env elapsed d w elapsed'] by blast
  show "\<forall>v. timeValidators w (InstrumentID d) = Some v \<and>
        insideSession (mapTime env (tradingDayOfMapTime w) (hhmmssToSec env (UpdateTime d)))
          (tradingTimePoints v) \<and>
        latestTime v <
          mapTime env (tradingDayOfMapTime w) (hhmmssToSec env (UpdateTime d)) * 1000 +
            UpdateMillisec d \<and>
        0 < mapTime env (tradingDayOfMapTime w) (hhmmssToSec env (UpdateTime d)) * 1000 +
            UpdateMillisec d \<longrightarrow>
      publishedTo (InstrumentID d) (emittedBy w (processDepthMarketData env elapsed d w)) =
        [mapTime env (tradingDayOfMapTime w) (hhmmssToSec env (UpdateTime d)) * 1000 +
           UpdateMillisec d]"
    by (auto simp: emittedBy_process publishedTo_signal mappedTimeOf_def validate_def Let_def)
qed

theorem published_strictly_increasing_witness:
  "timeValidators loggedDemo ''A'' =
     Some \<lparr>tradingTimePoints = [1677229200, 1677250800], latestTime = 0\<rparr> \<and>
   steady demo steadyRun loggedDemo \<and>
   map_sum id (\<lambda>w. publishedTo ''A'' (emittedBy loggedDemo w))
     (performAll demo steadyRun loggedDemo) = Inr [1677232800500, 1677232800600] \<and>
   publishedTo ''A'' (emittedBy loggedDemo
      (processTicks demo [(77, tickA), (78, tickA), (79, tickA600)] loggedDemo)) =
     [1677232800500, 1677232800600] \<and>
   (0 :: int) < 1677232800500 \<and> (1677232800500 :: int) < 1677232800600 \<and>
   publishedTo ''A'' (emittedBy loggedDemo (processDepthMarketData demo 77 tickA loggedDemo)) =
     [1677232800500] \<and>
   emittedBy (processDepthMarketData demo 77 tickA loggedDemo)
     (processDepthMarketData demo 78 tickA (processDepthMarketData demo 77 tickA loggedDemo)) = []"
proof -
  obtain w' where w': "performAll demo steadyRun loggedDemo = Inr w'"
    using steadyRun_published by (cases "performAll demo steadyRun loggedDemo") simp_all
  note t = published_strictly_increasing [of demo steadyRun loggedDemo w' "''A''"
      "[(77, tickA), (78, tickA), (79, tickA600)]" 77 tickA 78]
  have i: "InstrumentID tickA = ''A''" "UpdateTime tickA = ''10:00:00''"
    "UpdateMillisec tickA = 500"
    by (simp_all add: tickA_fields)
  from t w' steadyRun_steady loggedDemo_A(1)
  have "\<forall>ts\<in>set (publishedTo ''A'' (emittedBy loggedDemo w')). 0 < ts"
    by simp
  with w' steadyRun_published have "(0 :: int) < 1677232800500" by simp
  moreover from t
  have "publishedTo ''A'' (emittedBy loggedDemo (processDepthMarketData demo 77 tickA loggedDemo)) =
     [1677232800500]"
    by (simp add: i loggedDemo_A demo_tick_time)
  moreover from t have "emittedBy (processDepthMarketData demo 77 tickA loggedDemo)
     (processDepthMarketData demo 78 tickA (processDepthMarketData demo 77 tickA loggedDemo)) = []"
    by blast
  ultimately show ?thesis
    by (simp add: loggedDemo_A run_demo steadyRun_steady steadyRun_published)
qed

text \<open>
  Claim C1 as stated fails when the validator table is rebuilt between two ticks. The
  logged-in watcher publishes a tick of A at 10:00:00.500; D is subscribed, which
  replaces every validator by a new one whose last accepted timestamp is 0; the same
  tick of A is then published a second time with the same final timestamp.
\<close>

theorem rebuild_repeats_timestamp:
  "loggedIn (processDepthMarketData demo 77 tickA loggedDemo) \<and>
   rebuilds (Subscription [''D''] False) (processDepthMarketData demo 77 tickA loggedDemo) \<and>
   \<not> steady demo rebuiltRun loggedDemo \<and>
   map_sum id (\<lambda>w. map_option latestTime (timeValidators w ''A''))
     (performAll demo (take 1 rebuiltRun) loggedDemo) = Inr (Some 1677232800500) \<and>
   map_sum id (\<lambda>w. map_option latestTime (timeValidators w ''A''))
     (performAll demo (take 2 rebuiltRun) loggedDemo) = Inr (Some 0) \<and>
   map_sum id (\<lambda>w. publishedTo ''A'' (emittedBy loggedDemo w))
     (performAll demo rebuiltRun loggedDemo) = Inr [1677232800500, 1677232800500]"
  by code_simp

subsection \<open>Subscription while disconnected\<close>

lemma demo_surviving_C:
  assumes "tradingDayOfMapTime w = ''20230224''" "earliestTime w = 0"
  shows "survivingRanges demo w ''C'' = [(32400000, 54000000), (75600000, 82800000)]"
    and "survivingBoundaries demo w ''C'' = [1677229200, 1677250800, 1677272400, 1677279600]"
  using assms
  by (simp_all add: survivingBoundaries_def survivingRanges_def demo_simps demoRanges_def
      demo_mapped)


lemma loggedA_eq:
  "loggedA =
     (userLoggedIn demo ''20230224'' (setupTimers demo (fresh\<lparr>subscribeSet := [''A'']\<rparr>)))
       \<lparr>outputs := [TradingDayChanged ''20230224'', SubscribeMarketData [''A'']]\<rparr>"
  and loggedA_reached:
  "customEvent demo ''20230224'' 0 RSP_USER_LOGIN
     (setupTimers demo (fresh\<lparr>subscribeSet := [''A'']\<rparr>)) = Inr loggedA"
proof -
  let ?w = "setupTimers demo (fresh\<lparr>subscribeSet := [''A'']\<rparr>)"
  have d: "currentTradingDay ?w \<noteq> ''20230224''"
    by (simp add: setupTimers_frame fresh_fields)
  have c: "copySlots (subscribeSet (userLoggedIn demo ''20230224'' ?w)) = Inr [''A'']"
    by (simp add: userLoggedIn_day_change [OF d] setupTimers_frame copySlots_demo)
  have o: "outputs (userLoggedIn demo ''20230224'' ?w) = [TradingDayChanged ''20230224'']"
    by (simp add: userLoggedIn_day_change [OF d] setupTimers_frame) (simp add: fresh_def)
  have r: "customEvent demo ''20230224'' 0 RSP_USER_LOGIN ?w =
      Inr ((userLoggedIn demo ''20230224'' ?w)
            \<lparr>outputs := [TradingDayChanged ''20230224'', SubscribeMarketData [''A'']]\<rparr>)"
    by (simp add: rspUserLogin_def subscribe_result [OF c] o)
  show "loggedA = (userLoggedIn demo ''20230224'' ?w)
       \<lparr>outputs := [TradingDayChanged ''20230224'', SubscribeMarketData [''A'']]\<rparr>"
    unfolding loggedA_def r by simp
  then show "customEvent demo ''20230224'' 0 RSP_USER_LOGIN ?w = Inr loggedA"
    by (simp only: r)
qed

lemma loggedA_fields:
  "subscribeSet loggedA = [''A'']" "tradingDayOfMapTime loggedA = ''20230224''"
  "currentTradingDay loggedA = ''20230224''" "earliestTime loggedA = 0"
  "timeValidators loggedA ''C'' = None" "loggedIn loggedA" "saveDepthMarketData loggedA"
proof -
  let ?w = "setupTimers demo (fresh\<lparr>subscribeSet := [''A'']\<rparr>)"
  have d: "currentTradingDay ?w \<noteq> ''20230224''"
    by (simp add: setupTimers_frame fresh_fields)
  show "subscribeSet loggedA = [''A'']" "tradingDayOfMapTime loggedA = ''20230224''"
    "currentTradingDay loggedA = ''20230224''" "earliestTime loggedA = 0" "loggedIn loggedA"
    "saveDepthMarketData loggedA"
    by (simp_all add: loggedA_eq userLoggedIn_day_change [OF d] setupTimers_frame fresh_fields)
  show "timeValidators loggedA ''C'' = None"
    by (simp add: loggedA_eq userLoggedIn_day_change(10) [OF d] setupTimeValidators_table
        setupTimers_frame)
qed

lemma offline_eq: "offline = loggedA\<lparr>loggedIn := False\<rparr>"
  and offline_reached:
  "customEvent demo ''20230224'' 0 (FRONT_DISCONNECTED 4097) loggedA = Inr offline"
  by (simp_all add: offline_def)

lemma offline_fields:
  "subscribeSet offline = [''A'']" "tradingDayOfMapTime offline = ''20230224''"
  "currentTradingDay offline = ''20230224''" "earliestTime offline = 0"
  "timeValidators offline ''C'' = None" "\<not> loggedIn offline" "saveDepthMarketData offline"
  by (simp_all add: offline_eq loggedA_fields)

lemma lateC_eq: "lateC = instrumentsSubscribed demo [''C''] [''C''] False offline"
  and lateC_reached: "subscribeInstruments demo [''C''] False offline = Inr lateC"
  by (simp_all add: lateC_def subscribeInstruments_def copySlots_demo)

lemma lateC_fields:
  "subscribeSet lateC = [''A'', ''C'']" "tradingDayOfMapTime lateC = ''20230224''"
  "earliestTime lateC = 0" "timeValidators lateC ''C'' = None"
  "currentTradingDay lateC = ''20230224''" "\<not> loggedIn lateC"
  by (simp_all add: lateC_eq instrumentsSubscribed_frame instrumentsSubscribed_validators
      offline_fields QSet_insert_def)

lemma relogged_eq:
  "relogged = lateC\<lparr>loggedIn := True,
                     outputs := outputs lateC @ [SubscribeMarketData [''A'', ''C'']]\<rparr>"
  and relogged_reached:
  "customEvent demo ''20230224'' 0 RSP_USER_LOGIN lateC = Inr relogged"
proof -
  have u: "userLoggedIn demo ''20230224'' lateC = lateC\<lparr>loggedIn := True\<rparr>"
    by (rule userLoggedIn_same_day) (simp add: lateC_fields)
  have r: "customEvent demo ''20230224'' 0 RSP_USER_LOGIN lateC =
      Inr (lateC\<lparr>loggedIn := True,
                  outputs := outputs lateC @ [SubscribeMarketData [''A'', ''C'']]\<rparr>)"
    by (simp add: rspUserLogin_def u subscribe_def lateC_fields copySlots_demo)
  show "relogged = lateC\<lparr>loggedIn := True,
                     outputs := outputs lateC @ [SubscribeMarketData [''A'', ''C'']]\<rparr>"
    unfolding relogged_def r by simp
  then show "customEvent demo ''20230224'' 0 RSP_USER_LOGIN lateC = Inr relogged"
    by (simp only: r)
qed

lemma subscribedD_eq: "subscribedD = instrumentsSubscribed demo [''D''] [''D''] False loggedDemo"
  and subscribedD_reached: "subscribeInstruments demo [''D''] False loggedDemo = Inr subscribedD"
  by (simp_all add: subscribedD_def subscribeInstruments_def copySlots_demo)

lemma subscribedD_fields:
  "subscribeSet subscribedD = [''A'', ''B'', ''C'', ''D'']"
  "tradingDayOfMapTime subscribedD = ''20230224''" "earliestTime subscribedD = 0"
  by (simp_all add: subscribedD_eq instrumentsSubscribed_frame loggedDemo_eq QSet_insert_def)

lemma tickC600_fields:
  "InstrumentID tickC600 = ''C''" "UpdateTime tickC600 = ''10:00:00''"
  "UpdateMillisec tickC600 = 600"
  by (simp_all add: tickC600_def tickC_def tickA_def)

text \<open>
  Claim C5 on the code. An instrument subscribed while the front is disconnected gets
  no validator, and the next login on the same trading day does not rebuild the table
  either. A is subscribed and the watcher logs in; the front disconnects; C is
  subscribed. The subscribed set then holds C and the validator table does not, though
  a rebuild would give C a validator. The next login reports the recorded trading day:
  it asks the feed for A and C and leaves the table as it is, so a tick of C inside a
  session of C is dropped. The same subscription made while logged in gives C its
  validator.
\<close>

theorem offline_subscription_not_rebuilt:
  "customEvent demo ''20230224'' 0 RSP_USER_LOGIN
     (setupTimers demo (fresh\<lparr>subscribeSet := [''A'']\<rparr>)) = Inr loggedA \<and>
   customEvent demo ''20230224'' 0 (FRONT_DISCONNECTED 4097) loggedA = Inr offline \<and>
   subscribeSet offline = [''A''] \<and>
   subscribeInstruments demo [''C''] False offline = Inr lateC \<and>
   subscribeSet lateC = [''A'', ''C''] \<and>
   timeValidators lateC ''C'' = None \<and>
   timeValidators (setupTimeValidators demo lateC) ''C'' =
     Some \<lparr>tradingTimePoints = [1677229200, 1677250800, 1677272400, 1677279600],
           latestTime = 0\<rparr> \<and>
   customEvent demo ''20230224'' 0 RSP_USER_LOGIN lateC = Inr relogged \<and>
   loggedIn relogged \<and>
   emittedBy lateC relogged = [SubscribeMarketData [''A'', ''C'']] \<and>
   timeValidators relogged ''C'' = None \<and>
   insideSession (mapTime demo (tradingDayOfMapTime relogged)
                    (hhmmssToSec demo (UpdateTime tickC600)))
     [1677229200, 1677250800, 1677272400, 1677279600] \<and>
   emittedBy relogged (processDepthMarketData demo 79 tickC600 relogged) = [] \<and>
   map_sum id (\<lambda>w. timeValidators w ''C'') (subscribeInstruments demo [''C''] False loggedA) =
     Inr (Some \<lparr>tradingTimePoints = [1677229200, 1677250800, 1677272400, 1677279600],
                latestTime = 0\<rparr>)"
proof -
  have a: "timeValidators (setupTimeValidators demo lateC) ''C'' =
     Some \<lparr>tradingTimePoints = [1677229200, 1677250800, 1677272400, 1677279600],
           latestTime = 0\<rparr>"
    by (simp add: setupTimeValidators_table lateC_fields demo_surviving_C newTimeValidator_def)
  have n: "timeValidators relogged ''C'' = None" "tradingDayOfMapTime relogged = ''20230224''"
    "loggedIn relogged"
    by (simp_all add: relogged_eq lateC_fields)
  have e: "emittedBy lateC relogged = [SubscribeMarketData [''A'', ''C'']]"
    by (simp add: emittedBy_def relogged_eq)
  have t: "emittedBy relogged (processDepthMarketData demo 79 tickC600 relogged) = []"
    by (simp add: emittedBy_process mappedTimeOf_def n tickC600_fields)
  have i: "insideSession (mapTime demo (tradingDayOfMapTime relogged)
                    (hhmmssToSec demo (UpdateTime tickC600)))
     [1677229200, 1677250800, 1677272400, 1677279600]"
    by (simp add: n tickC600_fields demo_tick_time)
  let ?n = "loggedA\<lparr>subscribeSet := fold QSet_insert [''C''] (subscribeSet loggedA)\<rparr>"
  have "timeValidators (setupTimeValidators demo ?n) ''C'' =
      Some \<lparr>tradingTimePoints = [1677229200, 1677250800, 1677272400, 1677279600],
            latestTime = 0\<rparr>"
    by (simp add: setupTimeValidators_table loggedA_fields demo_surviving_C newTimeValidator_def
        QSet_insert_def)
  then have s: "map_sum id (\<lambda>w. timeValidators w ''C'')
        (subscribeInstruments demo [''C''] False loggedA) =
     Inr (Some \<lparr>tradingTimePoints = [1677229200, 1677250800, 1677272400, 1677279600],
                latestTime = 0\<rparr>)"
    by (simp add: subscribeInstruments_def copySlots_demo instrumentsSubscribed_validators
        loggedA_fields)
  from a n e t i s show ?thesis
    by (simp add: loggedA_reached offline_reached lateC_reached relogged_reached
        offline_fields lateC_fields del: customEvent.simps)
qed

subsection \<open>Instruments without a validator\<close>

lemma buffers_None:
  "timeValidators w i = None \<Longrightarrow>
   depthMarketDataListMap (processTicks env ticks w) i = depthMarketDataListMap w i"
proof (induction ticks arbitrary: w)
  case Nil
  show ?case by (simp add: processTicks_def)
next
  case (Cons t ticks)
  let ?w1 = "processDepthMarketData env (fst t) (snd t) w"
  from Cons.prems have n: "timeValidators ?w1 i = None" by (rule process_validators_None)
  have "depthMarketDataListMap ?w1 i = depthMarketDataListMap w i"
    using Cons.prems by (auto simp: process_buffers mappedTimeOf_def)
  moreover have "processTicks env (t # ticks) w = processTicks env ticks ?w1"
    by (simp add: processTicks_def)
  ultimately show ?case using Cons.IH [OF n] by simp
qed

lemma ungrouped:
  assumes "getEndPoints env i = []" and "g \<in> set (instrumentsToProcess (setupTimers env w))"
  shows "i \<notin> set g"
proof -
  from assms(2) obtain k where "g = QMap_at (collectEndPoints env (subscribeSet w)) k"
    by (auto simp: setupTimers_groups)
  then have "set g = set (closingAt env (subscribeSet w) k)"
    by (simp add: collectEndPoints_at)
  with assms(1) show ?thesis by (simp add: closingAt_def)
qed

lemma timesUp_total:
  "j < length (instrumentsToProcess w) \<Longrightarrow>
   \<exists>w'. timesUp env today currentTime (int j) w = Inr w'"
  by (simp add: timesUp_def saveInstruments_def Let_def)

lemma armed_length:
  "multiTimer (setupTimers env w) = Some ps \<Longrightarrow>
   length ps = length (instrumentsToProcess (setupTimers env w))"
  by (auto simp: setupTimers_multiTimer setupTimers_groups)

lemma grouped_by_close_time:
  assumes "i \<in> set (subscribeSet w)"
  shows "\<forall>j<length (closeTimes env (subscribeSet w)).
           (i \<in> set (instrumentsToProcess (setupTimers env w) ! j)) =
           (closeTimes env (subscribeSet w) ! j \<in> set (getEndPoints env i))"
    and "\<forall>t\<in>set (getEndPoints env i).
           \<exists>j<length (closeTimes env (subscribeSet w)).
             closeTimes env (subscribeSet w) ! j = t \<and>
             i \<in> set (instrumentsToProcess (setupTimers env w) ! j)"
proof -
  let ?ts = "closeTimes env (subscribeSet w)"
  show g: "\<forall>j<length ?ts.
           (i \<in> set (instrumentsToProcess (setupTimers env w) ! j)) =
           (?ts ! j \<in> set (getEndPoints env i))"
    using assms by (simp add: setupTimers_group_set closingAt_def)
  show "\<forall>t\<in>set (getEndPoints env i).
           \<exists>j<length ?ts. ?ts ! j = t \<and>
             i \<in> set (instrumentsToProcess (setupTimers env w) ! j)"
  proof
    fix t assume t: "t \<in> set (getEndPoints env i)"
    with assms have "t \<in> set ?ts" by (auto simp: set_closeTimes)
    then obtain j where "j < length ?ts" "?ts ! j = t" by (auto simp: in_set_conv_nth)
    with g t show "\<exists>j<length ?ts. ?ts ! j = t \<and>
             i \<in> set (instrumentsToProcess (setupTimers env w) ! j)"
      by auto
  qed
qed

text \<open>
  Claim C7, as the code has it. An instrument with no session table has no surviving
  range. After \<^verbatim>\<open>setupTimeValidators\<close> an instrument that is not subscribed or has no
  surviving range has no validator, and over any run of ticks nothing is published
  for it and its buffer stays as it was. An instrument with no session-close time is
  in no group. A subscribed instrument with no surviving range is in group \<open>j\<close>
  exactly when the \<open>j\<close>-th close time is one of its session closes, and each of its
  session closes has such a group. Every index of the armed list fires without
  failure.
\<close>

theorem unvalidated_instrument:
  "(getTradingTimeRanges env i = [] \<longrightarrow> survivingRanges env w i = []) \<and>
   (i \<notin> set (subscribeSet w) \<or> survivingRanges env w i = [] \<longrightarrow>
      timeValidators (setupTimeValidators env w) i = None \<and>
      publishedTo i (emittedBy (setupTimeValidators env w)
                       (processTicks env ticks (setupTimeValidators env w))) = [] \<and>
      depthMarketDataListMap (processTicks env ticks (setupTimeValidators env w)) i =
        depthMarketDataListMap w i) \<and>
   (getEndPoints env i = [] \<longrightarrow>
      (\<forall>g\<in>set (instrumentsToProcess (setupTimers env w)). i \<notin> set g)) \<and>
   (i \<in> set (subscribeSet w) \<and> survivingRanges env w i = [] \<longrightarrow>
      (\<forall>j<length (closeTimes env (subscribeSet w)).
         (i \<in> set (instrumentsToProcess (setupTimers env w) ! j)) =
         (closeTimes env (subscribeSet w) ! j \<in> set (getEndPoints env i))) \<and>
      (\<forall>t\<in>set (getEndPoints env i).
         \<exists>j<length (closeTimes env (subscribeSet w)).
           closeTimes env (subscribeSet w) ! j = t \<and>
           i \<in> set (instrumentsToProcess (setupTimers env w) ! j))) \<and>
   (\<forall>ps. multiTimer (setupTimers env w) = Some ps \<longrightarrow>
      (\<forall>j<length ps.
         \<exists>w'. timesUp env today currentTime (int j) (setupTimers env w) = Inr w'))"
proof (intro conjI impI allI)
  show "survivingRanges env w i = []" if "getTradingTimeRanges env i = []"
    using that by (simp add: survivingRanges_def)
next
  assume a: "i \<notin> set (subscribeSet w) \<or> survivingRanges env w i = []"
  let ?w = "setupTimeValidators env w"
  from a show n: "timeValidators ?w i = None"
    by (auto simp: setupTimeValidators_table)
  from n published_increasing [of i ?w env ticks]
  show "publishedTo i (emittedBy ?w (processTicks env ticks ?w)) = []"
    by blast
  from buffers_None [OF n, of env ticks]
  show "depthMarketDataListMap (processTicks env ticks ?w) i = depthMarketDataListMap w i"
    by (simp add: setupTimeValidators_def)
next
  assume "getEndPoints env i = []"
  then show "\<forall>g\<in>set (instrumentsToProcess (setupTimers env w)). i \<notin> set g"
    by (blast dest: ungrouped)
next
  fix j
  assume "i \<in> set (subscribeSet w) \<and> survivingRanges env w i = []"
    and "j < length (closeTimes env (subscribeSet w))"
  then show "(i \<in> set (instrumentsToProcess (setupTimers env w) ! j)) =
         (closeTimes env (subscribeSet w) ! j \<in> set (getEndPoints env i))"
    using grouped_by_close_time(1) [of i w env] by blast
next
  assume "i \<in> set (subscribeSet w) \<and> survivingRanges env w i = []"
  then show "\<forall>t\<in>set (getEndPoints env i).
         \<exists>j<length (closeTimes env (subscribeSet w)).
           closeTimes env (subscribeSet w) ! j = t \<and>
           i \<in> set (instrumentsToProcess (setupTimers env w) ! j)"
    using grouped_by_close_time(2) [of i w env] by blast
next
  fix ps j
  assume "multiTimer (setupTimers env w) = Some ps" and "j < length ps"
  then have "j < length (instrumentsToProcess (setupTimers env w))"
    by (simp add: armed_length)
  then show "\<exists>w'. timesUp env today currentTime (int j) (setupTimers env w) = Inr w'"
    by (rule timesUp_total)
qed

theorem unvalidated_instrument_witness:
  "''D'' \<in> set (subscribeSet subscribedD) \<and>
   getTradingTimeRanges demo ''D'' = [] \<and> getEndPoints demo ''D'' = [] \<and>
   survivingRanges demo subscribedD ''D'' = [] \<and>
   timeValidators (setupTimeValidators demo subscribedD) ''D'' = None \<and>
   publishedTo ''D'' (emittedBy (setupTimeValidators demo subscribedD)
      (processTicks demo [(77, tickD), (78, tickA)] (setupTimeValidators demo subscribedD))) = [] \<and>
   depthMarketDataListMap
      (processTicks demo [(77, tickD), (78, tickA)] (setupTimeValidators demo subscribedD)) ''D'' =
     depthMarketDataListMap subscribedD ''D'' \<and>
   ''D'' \<notin> set [''A'', ''B'', ''C''] \<and> ''D'' \<notin> set [''C''] \<and>
   multiTimer (setupTimers demo subscribedD) = Some [54060000, 82860000] \<and>
   instrumentsToProcess (setupTimers demo subscribedD) = [[''A'', ''B'', ''C''], [''C'']] \<and>
   (\<exists>w'. timesUp demo 2460000 (QTime_hm 23 1) 1 (setupTimers demo subscribedD) = Inr w') \<and>
   ''A'' \<in> set (subscribeSet midday) \<and> survivingRanges demo midday ''A'' = [] \<and>
   closeTimes demo (subscribeSet midday) = [54000000, 82800000] \<and>
   getEndPoints demo ''A'' = [54000000] \<and>
   ''A'' \<in> set (instrumentsToProcess (setupTimers demo midday) ! 0) \<and>
   ''A'' \<notin> set (instrumentsToProcess (setupTimers demo midday) ! 1)"
proof -
  note t = unvalidated_instrument [of demo "''D''" subscribedD
      "[(77, tickD), (78, tickA)]" 2460000 "QTime_hm 23 1"]
  have r: "getTradingTimeRanges demo ''D'' = []" "getEndPoints demo ''D'' = []"
    by (simp_all add: demo_simps demoRanges_def demoEndPoints_def)
  have c: "closeTimes demo [''A'', ''B'', ''C'', ''D''] = [54000000, 82800000]"
    by (simp add: closeTimes_def demo_simps demoEndPoints_def)
  have m: "multiTimer (setupTimers demo subscribedD) = Some [54060000, 82860000]"
    by (simp add: setupTimers_multiTimer subscribedD_fields c addSecs_before_last_minute)
  have g: "instrumentsToProcess (setupTimers demo subscribedD) = [[''A'', ''B'', ''C''], [''C'']]"
    by (simp add: setupTimers_def subscribedD_fields collectEndPoints_def
        addInstrument_def QMap_keys_def QMap_at_def demo_simps demoEndPoints_def)
  from t r have s: "survivingRanges demo subscribedD ''D'' = []" by blast
  with t have d: "timeValidators (setupTimeValidators demo subscribedD) ''D'' = None"
    "publishedTo ''D'' (emittedBy (setupTimeValidators demo subscribedD)
      (processTicks demo [(77, tickD), (78, tickA)] (setupTimeValidators demo subscribedD))) = []"
    "depthMarketDataListMap
      (processTicks demo [(77, tickD), (78, tickA)] (setupTimeValidators demo subscribedD)) ''D'' =
     depthMarketDataListMap subscribedD ''D''"
    by blast+
  from t m
  have a: "\<forall>j<length [54060000, 82860000 :: int].
      \<exists>w'. timesUp demo 2460000 (QTime_hm 23 1) (int j) (setupTimers demo subscribedD) = Inr w'"
    by blast
  from a [rule_format, of 1]
  have f: "\<exists>w'. timesUp demo 2460000 (QTime_hm 23 1) 1 (setupTimers demo subscribedD) = Inr w'"
    by simp
  note u = unvalidated_instrument [of demo "''A''" midday "[]" 2460000 "QTime_hm 23 1"]
  have cm: "closeTimes demo (subscribeSet midday) = [54000000, 82800000]"
    by (simp add: midday_fields demo_closeTimes)
  have ea: "getEndPoints demo ''A'' = [54000000]"
    by (simp add: demo_simps demoEndPoints_def)
  have sa: "''A'' \<in> set (subscribeSet midday)" "survivingRanges demo midday ''A'' = []"
    by (simp_all add: midday_fields midday_surviving)
  with u have "\<forall>j<length (closeTimes demo (subscribeSet midday)).
         (''A'' \<in> set (instrumentsToProcess (setupTimers demo midday) ! j)) =
         (closeTimes demo (subscribeSet midday) ! j \<in> set (getEndPoints demo ''A''))"
    by blast
  then have ga: "\<forall>j<length [54000000, 82800000 :: int].
         (''A'' \<in> set (instrumentsToProcess (setupTimers demo midday) ! j)) =
         ([54000000, 82800000] ! j \<in> set [54000000 :: int])"
    by (simp add: cm ea)
  from ga [rule_format, of 0] ga [rule_format, of 1]
  have "''A'' \<in> set (instrumentsToProcess (setupTimers demo midday) ! 0)"
    "''A'' \<notin> set (instrumentsToProcess (setupTimers demo midday) ! 1)"
    by simp_all
  with d f r s m g cm ea sa show ?thesis
    by (simp add: subscribedD_fields)
qed

theorem floored_instrument_still_grouped:
  "''A'' \<in> set (subscribeSet midday) \<and>
   getTradingTimeRanges demo ''A'' = [(32400000, 54000000)] \<and>
   survivingRanges demo midday ''A'' = [] \<and>
   timeValidators (setupTimeValidators demo midday) ''A'' = None \<and>
   multiTimer (setupTimers demo midday) = Some [54060000, 82860000] \<and>
   instrumentsToProcess (setupTimers demo midday) = [[''A'', ''B'', ''C''], [''C'']]"
proof -
  have "setupTimers demo midday = midday"
    by (simp add: midday_def loggedDemo_eq setupTimers_def collectEndPoints_def
        addInstrument_def QMap_keys_def QMap_at_def demo_simps demoEndPoints_def
        addSecs_before_last_minute)
  then show ?thesis
    by (simp add: setupTimeValidators_table midday_surviving midday_fields demo_simps
        demoRanges_def) (simp add: midday_def loggedDemo_eq)
qed

end
